theory Spec2Isabelle
  imports Complex_Main
begin

section \<open>Values, errors and the state of the wrapped plotting library\<close>

text \<open>
  The module \<^verbatim>\<open>prettypyplot/plot.py\<close> wraps matplotlib. Its functions take Python
  values, raise Python exceptions and act on objects that matplotlib owns. The wrapped
  library is modelled by the state the wrapper can observe (\<open>world\<close>): the Axes objects,
  addressed by their identity, the current axes and figure of pyplot, and a log of the
  calls made on the library, in order. A Python \<^verbatim>\<open>float\<close> is the real number it denotes,
  and every arithmetic operation on floats is the exact operation followed by the
  rounding of binary64 (\<open>round_double\<close> below).
\<close>

type_synonym ref = nat

datatype pyval =
    PNone
  | PBool bool
  | PInt int
  | PFloat real
  | PStr string
  | PTuple "pyval list"
  | PList "pyval list"
  | PAxes ref
  | PObj ref

text \<open>
  What Python can hash: a list cannot, a tuple can when its elements can, and the other
  values can. \<open>PList\<close> stands for the unhashable values (lists, dicts, sets).
\<close>

fun hashable :: "pyval \<Rightarrow> bool" and hashable_all :: "pyval list \<Rightarrow> bool" where
  "hashable (PList l) = False"
| "hashable (PTuple l) = hashable_all l"
| "hashable PNone = True"
| "hashable (PBool b) = True"
| "hashable (PInt i) = True"
| "hashable (PFloat x) = True"
| "hashable (PStr s) = True"
| "hashable (PAxes r) = True"
| "hashable (PObj r) = True"
| "hashable_all [] = True"
| "hashable_all (v # vs) = (hashable v \<and> hashable_all vs)"

text \<open>The truth value of a Python value (\<^verbatim>\<open>if outside:\<close>).\<close>

definition truthy :: "pyval \<Rightarrow> bool" where
  "truthy v =
     (case v of
        PNone \<Rightarrow> False
      | PBool b \<Rightarrow> b
      | PInt i \<Rightarrow> i \<noteq> 0
      | PFloat x \<Rightarrow> x \<noteq> 0
      | PStr s \<Rightarrow> s \<noteq> []
      | PTuple l \<Rightarrow> l \<noteq> []
      | PList l \<Rightarrow> l \<noteq> []
      | PAxes r \<Rightarrow> True
      | PObj r \<Rightarrow> True)"

subsection \<open>Floating point\<close>

text \<open>
  The floats of Python and numpy are IEEE 754 binary64 numbers, and \<^verbatim>\<open>+\<close>, \<^verbatim>\<open>-\<close>, \<^verbatim>\<open>*\<close> and
  \<^verbatim>\<open>/\<close> on them return the exact result rounded to the nearest binary64 number, a tie
  going to the even significand. \<open>round_half_even\<close> rounds a real to an integer that way.
  \<open>round_double x\<close> is the binary64 number nearest to \<open>x\<close>: a significand of 53 bits at
  the exponent of \<open>x\<close>, and the fixed exponent \<open>- 1022\<close> below the normal range (the
  subnormal numbers). The exponent is not bounded above: a result beyond the largest
  binary64 number, which the machine turns into infinity, is outside the model.
\<close>

definition round_half_even :: "real \<Rightarrow> int" where
  "round_half_even y =
     (let f = \<lfloor>y\<rfloor>; d = y - of_int f in
      if d < 1 / 2 then f else if 1 / 2 < d then f + 1 else if even f then f else f + 1)"

definition float_exponent :: "real \<Rightarrow> int" where
  "float_exponent x = max \<lfloor>log 2 \<bar>x\<bar>\<rfloor> (- 1022)"

definition round_double :: "real \<Rightarrow> real" where
  "round_double x =
     (if x = 0 then 0
      else let u = 2 powr (of_int (float_exponent x) - 52)
           in sgn x * of_int (round_half_even (\<bar>x\<bar> / u)) * u)"

text \<open>
  The exceptions of the module: \<open>ValueError\<close> and \<open>TypeError\<close> are raised by its own
  checks, \<open>IndexError\<close>, \<open>KeyError\<close> and \<open>ZeroDivisionError\<close> by the Python operations
  it uses, and \<open>LibraryError\<close> stands for an exception raised inside matplotlib.
\<close>

datatype error = ValueError | TypeError | IndexError | KeyError | ZeroDivisionError | LibraryError

text \<open>
  Keyword arguments are a Python \<open>dict\<close>: an association list without repeated keys, in
  insertion order.
\<close>

type_synonym kwargs = "(string \<times> pyval) list"

definition has_key :: "string \<Rightarrow> kwargs \<Rightarrow> bool" where
  "has_key k kw = (k \<in> fst ` set kw)"

definition setdefault :: "string \<Rightarrow> pyval \<Rightarrow> kwargs \<Rightarrow> kwargs" where
  "setdefault k v kw = (if has_key k kw then kw else kw @ [(k, v)])"

text \<open>The object an image-like argument of \<open>colorbar\<close> is: what attributes it has.\<close>

datatype image = WithAxes ref | WithAx ref | Bare

text \<open>A width or a padding of \<open>colorbar\<close>: a string such as \<open>7%\<close>, or inches.\<close>

datatype spacing = Rel string | Inches real

text \<open>
  The calls on the wrapped library that the module makes. The layout and the writing of
  the file carry the size the figure had when they ran.
\<close>

datatype call =
    AxImshow ref "pyval list" kwargs
  | AxPlot ref "pyval list" kwargs
  | SpineSetBounds ref string real real
  | LocatorParams ref string real
  | FigSetSizeInches "real \<times> real"
  | FigTightLayout "real \<times> real"
  | PltSavefig string kwargs "real \<times> real"
  | AxLegend ref "pyval list" "string list" "pyval list" kwargs
  | FrameSetLinewidth pyval real
  | LegendTitleIntoHandleBox pyval
  | MakeAxesLocatable ref
  | AppendAxes ref string spacing spacing
  | PltColorbar image ref string
  | CbarSetLabel pyval string
  | SetVisible ref bool
  | AxGrid ref string string kwargs
  | SetAxisBelow ref bool

text \<open>
  An Axes object, as far as the module reads or writes it: on which side the ticks and the
  label of each axis are (\<^verbatim>\<open>set_ticks_position\<close>, \<^verbatim>\<open>set_label_position\<close>), and what the
  library reports for its ticks, limits, position in the figure (\<^verbatim>\<open>get_position().bounds\<close>)
  and labelled artists.
\<close>

record axes =
  xticks_position :: string
  xlabel_position :: string
  yticks_position :: string
  ylabel_position :: string
  xticks :: "real list"
  yticks :: "real list"
  xlim :: "real \<times> real"
  ylim :: "real \<times> real"
  bounds :: "real \<times> real \<times> real \<times> real"
  legend_entries :: "(pyval \<times> string) list"

text \<open>
  The state of the library: the Axes objects by identity, the next unused identity, the
  current axes (\<^verbatim>\<open>plt.gca()\<close>), the axes and the size of the current figure
  (\<^verbatim>\<open>plt.gcf()\<close>), the bounds the layout engine gives an axes for a size of the figure,
  \<^verbatim>\<open>plt.rcParams\<close>, the exception with which the library answers a call it refuses
  (\<open>refuses\<close>, read where \<^verbatim>\<open>ax.legend\<close> is called), and the log of the calls that returned,
  with what each returned.
\<close>

record world =
  axes_of :: "ref \<Rightarrow> axes"
  fresh :: ref
  current_axes :: ref
  fig_axes :: "ref list"
  fig_size :: "real \<times> real"
  tight :: "real \<times> real \<Rightarrow> ref \<Rightarrow> real \<times> real \<times> real \<times> real"
  rcParams :: "string \<Rightarrow> real option"
  refuses :: "call \<Rightarrow> error option"
  calls :: "(call \<times> pyval) list"

text \<open>
  The two flags imported from \<^verbatim>\<open>prettypyplot.style\<close> (\<^verbatim>\<open>__STYLE\<close>, \<^verbatim>\<open>__MODE\<close>); their values
  are set elsewhere, so they are parameters of every function that reads them.
\<close>

record config =
  style :: string
  mode :: string

text \<open>
  A call of a function of the module ends with a value or an exception, and leaves the
  library in a state: an exception does not undo what was done before it.
\<close>

type_synonym 'a outcome = "(error + 'a) \<times> world"

section \<open>The helpers of \<^verbatim>\<open>prettypyplot.tools\<close>\<close>

text \<open>
  Modelled from the spec: \<^verbatim>\<open>tools.gca\<close> is not among the sources. The spec says of it:
  "resolve a target drawing surface (explicit argument or an implicit "current"
  surface)".
\<close>

definition tools_gca :: "ref option \<Rightarrow> world \<Rightarrow> ref" where
  "tools_gca ax w = (case ax of None \<Rightarrow> current_axes w | Some a \<Rightarrow> a)"

text \<open>
  Modelled from the spec: \<^verbatim>\<open>tools.parse_axes\<close> is not among the sources. It is the same
  resolution of the drawing surface, returned with the positional arguments.
\<close>

definition parse_axes :: "pyval list \<Rightarrow> ref option \<Rightarrow> world \<Rightarrow> pyval list \<times> ref" where
  "parse_axes args ax w = (args, tools_gca ax w)"

text \<open>
  Modelled from the spec: \<^verbatim>\<open>tools.invert_sign\<close> is not among the sources. The spec
  calls it "sign inversion for spacing values".
\<close>

definition invert_sign :: "spacing \<Rightarrow> spacing" where
  "invert_sign s =
     (case s of
        Rel t \<Rightarrow> (case t of
                    c # r \<Rightarrow> if c = CHR ''-'' then Rel r else Rel (CHR ''-'' # t)
                  | [] \<Rightarrow> Rel (CHR ''-'' # t))
      | Inches x \<Rightarrow> Inches (- x))"

section \<open>The functions of \<^verbatim>\<open>plot.py\<close>\<close>

subsection \<open>\<^verbatim>\<open>_opposite_side\<close>\<close>

definition opposite_side :: "string \<Rightarrow> error + string" where
  "opposite_side pos =
     (if pos = ''top'' then Inr ''bottom''
      else if pos = ''bottom'' then Inr ''top''
      else if pos = ''right'' then Inr ''left''
      else if pos = ''left'' then Inr ''right''
      else Inl ValueError)"

subsection \<open>\<^verbatim>\<open>activate_axis\<close>\<close>

text \<open>
  \<open>position\<close> is a string or a list of strings. For a string outside the four sides the
  source raises \<open>ValueError\<close>; the message it builds has the format field \<^verbatim>\<open>{0:!r}\<close>,
  which \<^verbatim>\<open>str.format\<close> itself rejects with a \<open>ValueError\<close>, so the exception is a
  \<open>ValueError\<close> either way.
\<close>

datatype position_arg = Pos string | PosList "string list"

definition positions :: "string set" where
  "positions = {''bottom'', ''top'', ''left'', ''right''}"

text \<open>
  The body of the loop after the check: \<^verbatim>\<open>axis.set_ticks_position(pos)\<close> and
  \<^verbatim>\<open>axis.set_label_position(pos)\<close> on the x axis for bottom and top, on the y axis for
  left and right.
\<close>

definition set_positions :: "ref \<Rightarrow> string \<Rightarrow> world \<Rightarrow> world" where
  "set_positions a pos w =
     (if pos \<in> {''bottom'', ''top''} then
        w\<lparr>axes_of := (axes_of w)(a := (axes_of w a)\<lparr>xticks_position := pos, xlabel_position := pos\<rparr>)\<rparr>
      else if pos \<in> {''left'', ''right''} then
        w\<lparr>axes_of := (axes_of w)(a := (axes_of w a)\<lparr>yticks_position := pos, ylabel_position := pos\<rparr>)\<rparr>
      else w)"

fun activate_loop :: "ref \<Rightarrow> string list \<Rightarrow> world \<Rightarrow> pyval outcome" where
  "activate_loop a [] w = (Inr PNone, w)"
| "activate_loop a (pos # rest) w =
     (if pos \<notin> positions then (Inl ValueError, w)
      else activate_loop a rest (set_positions a pos w))"

definition activate_axis :: "position_arg \<Rightarrow> ref option \<Rightarrow> world \<Rightarrow> pyval outcome" where
  "activate_axis position ax w =
     (let a = tools_gca ax w;
          ps = (case position of Pos s \<Rightarrow> [s] | PosList l \<Rightarrow> l)
      in activate_loop a ps w)"

subsection \<open>\<^verbatim>\<open>_minmax\<close>, \<^verbatim>\<open>_xminmax\<close>, \<^verbatim>\<open>_yminmax\<close>\<close>

text \<open>
  The limits of an axes and the margin of \<^verbatim>\<open>plt.rcParams\<close> are floats, so every operation
  of \<^verbatim>\<open>lim[0] + (margin + idx) / (1 + 2 * margin) * width\<close> is rounded, in the order in
  which Python evaluates them. \<^verbatim>\<open>plt.rcParams[rcparam]\<close> raises \<open>KeyError\<close> for a missing
  key, and the division of two Python floats raises \<open>ZeroDivisionError\<close> when the divisor
  \<open>1 + 2 * margin\<close> is zero. The parameter \<^verbatim>\<open>lim\<close> is written \<open>lims\<close>: \<open>lim\<close> is the limit of a
  sequence in HOL.
\<close>

definition minmax :: "(string \<Rightarrow> real option) \<Rightarrow> real \<times> real \<Rightarrow> string \<Rightarrow> error + real list" where
  "minmax rc lims rcparam =
     (let width = round_double (snd lims - fst lims) in
      case rc rcparam of
        None \<Rightarrow> Inl KeyError
      | Some margin \<Rightarrow>
          if round_double (1 + round_double (2 * margin)) = 0 then Inl ZeroDivisionError
          else Inr (map (\<lambda>idx. round_double (fst lims
                            + round_double (round_double (round_double (margin + idx)
                                / round_double (1 + round_double (2 * margin))) * width)))
                        [0, 1]))"

definition xminmax :: "ref \<Rightarrow> world \<Rightarrow> error + real list" where
  "xminmax ax w = minmax (rcParams w) (xlim (axes_of w ax)) ''axes.xmargin''"

definition yminmax :: "ref \<Rightarrow> world \<Rightarrow> error + real list" where
  "yminmax ax w = minmax (rcParams w) (ylim (axes_of w ax)) ''axes.ymargin''"

subsection \<open>The primitives of the wrapped library\<close>

text \<open>
  A call that creates an object (an image, the lines of a plot, a legend, a colorbar)
  returns a new identity; a call that returns nothing returns \<open>None\<close>. Both are logged
  with what they returned. The calls of the library are taken to return, but for the
  refusals written out where they are made: \<^verbatim>\<open>append_axes\<close> of a position that is not a
  side, \<^verbatim>\<open>set_size_inches\<close> of an infinite size in \<open>savefig\<close>, and \<^verbatim>\<open>ax.legend\<close>, which
  refuses more than two positional arguments and whatever \<open>refuses\<close> says.
\<close>

definition lib_new :: "call \<Rightarrow> world \<Rightarrow> pyval \<times> world" where
  "lib_new c w =
     (PObj (fresh w), w\<lparr>fresh := Suc (fresh w), calls := calls w @ [(c, PObj (fresh w))]\<rparr>)"

definition lib_do :: "call \<Rightarrow> world \<Rightarrow> world" where
  "lib_do c w = w\<lparr>calls := calls w @ [(c, PNone)]\<rparr>"

text \<open>\<^verbatim>\<open>fig.set_size_inches(size)\<close>, \<^verbatim>\<open>fig.tight_layout()\<close> and \<^verbatim>\<open>plt.savefig(fname, **kwargs)\<close>.
  The layout gives every axes of the figure the bounds the library computes for the
  size of the figure at that moment (\<open>tight\<close>); the log keeps the size the figure had
  when it was laid out and when it was written.\<close>

definition set_size_inches :: "real \<times> real \<Rightarrow> world \<Rightarrow> world" where
  "set_size_inches s w = w\<lparr>fig_size := s, calls := calls w @ [(FigSetSizeInches s, PNone)]\<rparr>"

definition tight_layout :: "world \<Rightarrow> world" where
  "tight_layout w =
     w\<lparr>axes_of := (\<lambda>r. if r \<in> set (fig_axes w)
                         then (axes_of w r)\<lparr>bounds := tight w (fig_size w) r\<rparr>
                         else axes_of w r),
       calls := calls w @ [(FigTightLayout (fig_size w), PNone)]\<rparr>"

definition plt_savefig :: "string \<Rightarrow> kwargs \<Rightarrow> world \<Rightarrow> world" where
  "plt_savefig fname kw w = w\<lparr>calls := calls w @ [(PltSavefig fname kw (fig_size w), PNone)]\<rparr>"

text \<open>\<^verbatim>\<open>divider.append_axes(position, size, pad=pad)\<close> creates an Axes object, adds it to
  the figure and makes it the current axes. For a position that is not one of the four
  sides the library raises \<open>ValueError\<close> before it creates anything.\<close>

definition new_axes :: axes where
  "new_axes =
     \<lparr>xticks_position = ''bottom'', xlabel_position = ''bottom'',
      yticks_position = ''left'', ylabel_position = ''left'',
      xticks = [], yticks = [], xlim = (0, 1), ylim = (0, 1),
      bounds = (0, 0, 1, 1), legend_entries = []\<rparr>"

definition append_axes :: "ref \<Rightarrow> string \<Rightarrow> spacing \<Rightarrow> spacing \<Rightarrow> world \<Rightarrow> error + ref \<times> world" where
  "append_axes ax position width pad w =
     (if position \<notin> {''left'', ''right'', ''bottom'', ''top''} then Inl ValueError
      else Inr (fresh w,
                w\<lparr>axes_of := (axes_of w)(fresh w := new_axes),
                  fresh := Suc (fresh w),
                  current_axes := fresh w,
                  fig_axes := fig_axes w @ [fresh w],
                  calls := calls w @ [(AppendAxes ax position width pad, PAxes (fresh w))]\<rparr>))"

text \<open>\<^verbatim>\<open>mlegend._get_legend_handles_labels(axs)\<close>: the labelled artists of the axes.\<close>

definition get_legend_handles_labels :: "pyval list \<Rightarrow> world \<Rightarrow> (pyval \<times> string) list" where
  "get_legend_handles_labels axs w =
     concat (map (\<lambda>v. case v of PAxes r \<Rightarrow> legend_entries (axes_of w r) | _ \<Rightarrow> []) axs)"

text \<open>
  \<^verbatim>\<open>os.path.splitext\<close> of the Python standard library (POSIX): the extension starts at
  the last dot of the last path component, unless only dots precede it there.
\<close>

definition splitext :: "string \<Rightarrow> string \<times> string" where
  "splitext p =
     (let base_rev = takeWhile (\<lambda>c. c \<noteq> CHR ''/'') (rev p);
          ext_rev = takeWhile (\<lambda>c. c \<noteq> CHR ''.'') base_rev;
          stem_rev = drop (Suc (length ext_rev)) base_rev
      in if length ext_rev < length base_rev \<and> filter (\<lambda>c. c \<noteq> CHR ''.'') stem_rev \<noteq> []
         then (take (length p - Suc (length ext_rev)) p, drop (length p - Suc (length ext_rev)) p)
         else (p, []))"

subsection \<open>\<^verbatim>\<open>imshow\<close>\<close>

definition imshow :: "pyval list \<Rightarrow> ref option \<Rightarrow> kwargs \<Rightarrow> world \<Rightarrow> pyval outcome" where
  "imshow args ax kwargs w =
     (let (args', a) = parse_axes args ax w;
          kwargs' = (if \<not> has_key ''zorder'' kwargs then kwargs @ [(''zorder'', PInt 1)] else kwargs);
          (r, w') = lib_new (AxImshow a args' kwargs') w
      in (Inr r, w'))"

subsection \<open>\<^verbatim>\<open>plot\<close>\<close>

definition plot :: "config \<Rightarrow> pyval list \<Rightarrow> ref option \<Rightarrow> kwargs \<Rightarrow> world \<Rightarrow> pyval outcome" where
  "plot cfg args ax kwargs w =
     (let (args', a) = parse_axes args ax w;
          (lines, w1) = lib_new (AxPlot a args' kwargs) w
      in if style cfg = ''minimal'' then
           (case xminmax a w1 of
              Inl e \<Rightarrow> (Inl e, w1)
            | Inr xmm \<Rightarrow>
                let w2 = (if xticks (axes_of w1 a) \<noteq> [] then
                            lib_do (SpineSetBounds a ''top'' (xmm ! 0) (xmm ! 1))
                              (lib_do (SpineSetBounds a ''bottom'' (xmm ! 0) (xmm ! 1)) w1)
                          else w1)
                in (case yminmax a w2 of
                      Inl e \<Rightarrow> (Inl e, w2)
                    | Inr ymm \<Rightarrow>
                        let w3 = (if yticks (axes_of w2 a) \<noteq> [] then
                                    lib_do (SpineSetBounds a ''right'' (ymm ! 0) (ymm ! 1))
                                      (lib_do (SpineSetBounds a ''left'' (ymm ! 0) (ymm ! 1)) w2)
                                  else w2)
                        in (Inr lines, w3)))
         else (Inr lines, w1))"

subsection \<open>\<^verbatim>\<open>savefig\<close>\<close>

text \<open>The loop over the axes of the figure under the style \<open>minimal\<close>; \<^verbatim>\<open>tick_reduc\<close> is 1.5.\<close>

fun reduce_ticks :: "ref list \<Rightarrow> world \<Rightarrow> world" where
  "reduce_ticks [] w = w"
| "reduce_ticks (a # rest) w =
     (let w1 = (if length (xticks (axes_of w a)) > 4
                then lib_do (LocatorParams a ''x''
                               (round_double (real (length (xticks (axes_of w a))) / (3 / 2)))) w
                else w);
          w2 = (if length (yticks (axes_of w1 a)) > 4
                then lib_do (LocatorParams a ''y''
                               (round_double (real (length (yticks (axes_of w1 a))) / (3 / 2)))) w1
                else w1)
      in reduce_ticks rest w2)"

text \<open>The block "save as pdf if not specified": the name handed to \<^verbatim>\<open>plt.savefig\<close>.\<close>

definition saved_name :: "string \<Rightarrow> kwargs \<Rightarrow> string" where
  "saved_name fname kwargs =
     (if \<not> has_key ''format'' kwargs then
        if drop 1 (snd (splitext fname)) = [] then fname @ ''.pdf''
        else fname
      else fname)"

text \<open>
  \<^verbatim>\<open>fig.get_axes()[0]\<close> raises \<open>IndexError\<close> for a figure without axes. A width or height
  of zero makes the size handed to \<^verbatim>\<open>set_size_inches\<close> infinite, which the library
  refuses.
\<close>

definition savefig :: "config \<Rightarrow> string \<Rightarrow> bool \<Rightarrow> kwargs \<Rightarrow> world \<Rightarrow> pyval outcome" where
  "savefig cfg fname use_canvas_size kwargs w =
     (case fig_axes w of
        [] \<Rightarrow> (Inl IndexError, w)
      | ax # _ \<Rightarrow>
          let figsize = fig_size w;
              set_figsize = figsize;
              w1 = (if style cfg = ''minimal'' then reduce_ticks (fig_axes w) w else w);
              w2 = (if mode cfg = ''poster'' then
                      set_size_inches (round_double (3 * fst figsize), round_double (3 * snd figsize)) w1
                    else if mode cfg = ''beamer'' then
                      set_size_inches (round_double (3 * fst figsize), round_double (3 * snd figsize)) w1
                    else w1);
              w3 = tight_layout w2;
              (x0, y0, width, height) = bounds (axes_of w3 ax)
          in if use_canvas_size \<and> (width = 0 \<or> height = 0) then (Inl LibraryError, w3)
             else
               let w4 = (if use_canvas_size
                         then set_size_inches (round_double (fst figsize / width),
                                               round_double (snd figsize / height)) w3
                         else w3);
                   fname' = saved_name fname kwargs;
                   w5 = plt_savefig fname' kwargs w4;
                   w6 = set_size_inches set_figsize w5
               in (Inr PNone, w6))"

subsection \<open>\<^verbatim>\<open>legend\<close>\<close>

text \<open>
  \<open>outside\<close> is any Python value. The first statement tests it against the set literal
  \<^verbatim>\<open>{False, 'top', 'right', 'left', 'bottom'}\<close>. Membership in a set hashes the value, so
  an unhashable one raises \<open>TypeError\<close> there; and it compares with \<^verbatim>\<open>==\<close>, under which the
  integer 0 and the float 0.0 equal \<open>False\<close>.
\<close>

definition outside_values :: "pyval set" where
  "outside_values =
     {PBool False, PInt 0, PFloat 0, PStr ''top'', PStr ''right'', PStr ''left'', PStr ''bottom''}"

definition check_outside :: "pyval \<Rightarrow> error option" where
  "check_outside outside =
     (if \<not> hashable outside then Some TypeError
      else if outside \<notin> outside_values then Some ValueError
      else None)"

definition is_axes :: "pyval \<Rightarrow> bool" where
  "is_axes v = (case v of PAxes r \<Rightarrow> True | _ \<Rightarrow> False)"

text \<open>The anchor, mode and location that \<open>legend\<close> sets unless the caller gave them. The
  literals \<^verbatim>\<open>0.01\<close>, \<^verbatim>\<open>1.03\<close> and \<^verbatim>\<open>-0.03\<close> are the floats nearest to them.\<close>

definition legend_defaults :: "pyval \<Rightarrow> kwargs \<Rightarrow> kwargs" where
  "legend_defaults outside kwargs =
     (if outside = PStr ''top'' then
        setdefault ''loc'' (PStr ''lower left'')
          (setdefault ''mode'' (PStr ''expand'')
            (setdefault ''bbox_to_anchor''
               (PTuple [PFloat 0, PFloat 1, PFloat 1, PFloat (round_double (1 / 100))]) kwargs))
      else if outside = PStr ''bottom'' then
        setdefault ''loc'' (PStr ''upper left'')
          (setdefault ''mode'' (PStr ''expand'')
            (setdefault ''bbox_to_anchor''
               (PTuple [PFloat 0, PFloat 0, PFloat 1, PFloat (round_double (1 / 100))]) kwargs))
      else if outside = PStr ''right'' then
        setdefault ''loc'' (PStr ''center left'')
          (setdefault ''bbox_to_anchor''
             (PTuple [PFloat (round_double (103 / 100)), PFloat (1 / 2)]) kwargs)
      else if outside = PStr ''left'' then
        setdefault ''loc'' (PStr ''center right'')
          (setdefault ''bbox_to_anchor''
             (PTuple [PFloat (round_double (- (3 / 100))), PFloat (1 / 2)]) kwargs)
      else kwargs)"

text \<open>The check of \<open>axs\<close>: \<open>[ax]\<close> when it is \<open>None\<close>, a \<open>TypeError\<close> when an element is not
  an Axes.\<close>

definition parse_axs :: "ref \<Rightarrow> pyval list option \<Rightarrow> error + pyval list" where
  "parse_axs a axs =
     (case axs of
        None \<Rightarrow> Inr [PAxes a]
      | Some l \<Rightarrow> if \<not> list_all is_axes l then Inl TypeError else Inr l)"

text \<open>The block that shifts the axis to the opposite side:
  \<^verbatim>\<open>if outside: activate_axis(_opposite_side(outside))\<close>, on the current axes (no \<^verbatim>\<open>ax\<close> is
  handed on). A value that is not a string equals none of the four sides, so
  \<^verbatim>\<open>_opposite_side\<close> raises \<open>ValueError\<close> on it.\<close>

definition shift_axis :: "pyval \<Rightarrow> world \<Rightarrow> pyval outcome" where
  "shift_axis outside w =
     (if truthy outside then
        (case (case outside of PStr s \<Rightarrow> opposite_side s | _ \<Rightarrow> Inl ValueError) of
           Inl e \<Rightarrow> (Inl e, w)
         | Inr opp \<Rightarrow> activate_axis (Pos opp) None w)
      else (Inr PNone, w))"

text \<open>The call \<^verbatim>\<open>ax.legend(handles, labels, *args, **kwargs)\<close> that \<open>legend\<close> makes: the
  defaults, the handles and labels of the axes in \<open>axs\<close>, and the number of columns.\<close>

definition legend_call :: "ref \<Rightarrow> pyval list \<Rightarrow> pyval \<Rightarrow> pyval list \<Rightarrow> kwargs \<Rightarrow> world \<Rightarrow> call" where
  "legend_call a args outside axs kwargs w1 =
     (let kw1 = legend_defaults outside kwargs;
          entries = get_legend_handles_labels axs w1;
          handles = map fst entries;
          labels = map snd entries;
          kw2 = (if outside \<in> {PStr ''top'', PStr ''bottom''}
                 then setdefault ''ncol'' (PInt (int (length labels))) kw1 else kw1)
      in AxLegend a handles labels args kw2)"

text \<open>The rest of the body. \<^verbatim>\<open>ax.legend\<close> takes the handles and the labels as its two
  positional arguments and raises \<open>TypeError\<close> when it is given more, which it is whenever
  \<open>args\<close> is not empty; it can refuse the call for other reasons (\<open>refuses\<close>). Then the line
  width of the frame and the title.\<close>

definition draw_legend ::
  "config \<Rightarrow> ref \<Rightarrow> pyval list \<Rightarrow> pyval \<Rightarrow> pyval list \<Rightarrow> kwargs \<Rightarrow> world \<Rightarrow> pyval outcome" where
  "draw_legend cfg a args outside axs kwargs w1 =
     (if args \<noteq> [] then (Inl TypeError, w1)
      else
        case refuses w1 (legend_call a args outside axs kwargs w1) of
          Some e \<Rightarrow> (Inl e, w1)
        | None \<Rightarrow>
            (let (leg, w2) = lib_new (legend_call a args outside axs kwargs w1) w1
             in (case (if style cfg = ''minimal'' then Inr (lib_do (FrameSetLinewidth leg 0) w2)
                       else if style cfg = ''default'' then
                         (case rcParams w2 ''axes.linewidth'' of
                            None \<Rightarrow> Inl KeyError
                          | Some lw \<Rightarrow> Inr (lib_do (FrameSetLinewidth leg lw) w2))
                       else Inr w2) of
                   Inl e \<Rightarrow> (Inl e, w2)
                 | Inr w3 \<Rightarrow>
                     let w4 = (if outside \<in> {PStr ''top'', PStr ''bottom''}
                               then lib_do (LegendTitleIntoHandleBox leg) w3 else w3)
                     in (Inr leg, w4))))"

definition legend ::
  "config \<Rightarrow> pyval list \<Rightarrow> pyval \<Rightarrow> ref option \<Rightarrow> pyval list option \<Rightarrow> kwargs \<Rightarrow> world
     \<Rightarrow> pyval outcome" where
  "legend cfg args outside ax axs kwargs w =
     (case check_outside outside of
        Some e \<Rightarrow> (Inl e, w)
      | None \<Rightarrow>
          let (args', a) = parse_axes args ax w in
          (case parse_axs a axs of
             Inl e \<Rightarrow> (Inl e, w)
           | Inr axs' \<Rightarrow>
               (case shift_axis outside w of
                  (Inl e, w1) \<Rightarrow> (Inl e, w1)
                | (Inr u, w1) \<Rightarrow> draw_legend cfg a args' outside axs' kwargs w1)))"

subsection \<open>\<^verbatim>\<open>colorbar\<close>\<close>

text \<open>The axes of the image: \<^verbatim>\<open>im.axes\<close>, else \<^verbatim>\<open>im.ax\<close>, else \<^verbatim>\<open>plt.gca()\<close>.\<close>

definition image_axes :: "image \<Rightarrow> world \<Rightarrow> ref" where
  "image_axes im w = (case im of WithAxes a \<Rightarrow> a | WithAx a \<Rightarrow> a | Bare \<Rightarrow> current_axes w)"

definition colorbar ::
  "image \<Rightarrow> spacing \<Rightarrow> spacing \<Rightarrow> string \<Rightarrow> string option \<Rightarrow> kwargs \<Rightarrow> world \<Rightarrow> pyval outcome" where
  "colorbar im width pad position label kwargs w =
     (let orientation = (if position \<in> {''top'', ''bottom''} then ''horizontal'' else ''vertical'');
          ax = image_axes im w;
          w0 = lib_do (MakeAxesLocatable ax) w
      in (case append_axes ax position width pad w0 of
            Inl e \<Rightarrow> (Inl e, w0)
          | Inr (cax, w1) \<Rightarrow>
              (let (cbar, w2) = lib_new (PltColorbar im cax orientation) w1;
                   w3 = (case label of
                           None \<Rightarrow> w2
                         | Some l \<Rightarrow> if l \<noteq> [] then lib_do (CbarSetLabel cbar l) w2 else w2)
               in (case activate_axis (Pos position) (Some cax) w3 of
                     (Inl e, w4) \<Rightarrow> (Inl e, w4)
                   | (Inr u, w4) \<Rightarrow>
                       (case opposite_side position of
                          Inl e \<Rightarrow> (Inl e, w4)
                        | Inr opp \<Rightarrow>
                            (case activate_axis (Pos opp) (Some ax) w4 of
                               (Inl e, w5) \<Rightarrow> (Inl e, w5)
                             | (Inr u', w5) \<Rightarrow>
                                 (let pad_inv = invert_sign pad;
                                      width_inv = invert_sign width
                                  in (case append_axes ax position width_inv pad_inv w5 of
                                        Inl e \<Rightarrow> (Inl e, w5)
                                      | Inr (cax_reset, w6) \<Rightarrow>
                                          (let w7 = lib_do (SetVisible cax_reset False) w6
                                           in (Inr cbar, w7))))))))))"

subsection \<open>\<^verbatim>\<open>grid\<close>\<close>

text \<open>
  \<^verbatim>\<open>ax.grid(which='major', linestyle='--', **kwargs)\<close> is a \<open>TypeError\<close> in Python when
  \<open>kwargs\<close> holds \<open>which\<close> or \<open>linestyle\<close> (a keyword given twice). \<^verbatim>\<open>Axes.grid\<close> returns
  nothing. Under any style but \<open>default\<close> the function ends without a \<^verbatim>\<open>return\<close>.
\<close>

definition grid :: "config \<Rightarrow> pyval list \<Rightarrow> ref option \<Rightarrow> kwargs \<Rightarrow> world \<Rightarrow> pyval outcome" where
  "grid cfg args ax kwargs w =
     (let (args', a) = parse_axes args ax w in
      if style cfg = ''default'' then
        if has_key ''which'' kwargs \<or> has_key ''linestyle'' kwargs then (Inl TypeError, w)
        else
          let gr_maj = PNone;
              w1 = lib_do (AxGrid a ''major'' ''--'' kwargs) w;
              gr_min = PNone;
              w2 = lib_do (AxGrid a ''minor'' ''dotted'' kwargs) w1;
              w3 = lib_do (SetAxisBelow a True) w2
          in (Inr (PTuple [gr_maj, gr_min]), w3)
      else (Inr PNone, w))"

subsection \<open>Reading the log\<close>

text \<open>The calls made on the library between two states, with what they returned.\<close>

definition made :: "world \<Rightarrow> world \<Rightarrow> (call \<times> pyval) list" where
  "made w w' = drop (length (calls w)) (calls w')"

text \<open>The calls of the log that write a file.\<close>

definition is_savefig :: "call \<Rightarrow> bool" where
  "is_savefig c = (case c of PltSavefig n k z \<Rightarrow> True | _ \<Rightarrow> False)"

subsection \<open>A figure to run the functions on\<close>

text \<open>
  One figure of 6 by 4 inches with one axes (object 0, the current axes), ticks and
  labels at the bottom and on the left, six ticks on the x axis, one labelled line, and
  a layout that gives the axes three quarters of the width and half of the height of the
  figure. The margins are the float nearest to 0.05 (\<open>double_005\<close>), the default of the
  library. The library refuses a call of \<^verbatim>\<open>ax.legend\<close> whose \<open>loc\<close> is the string \<open>nowhere\<close>
  with \<open>ValueError\<close> and one whose \<open>ncol\<close> is a string with \<open>TypeError\<close>, and no other
  call.
\<close>

definition double_005 :: real where
  "double_005 = 3602879701896397 / 2 ^ 56"

definition demo_refuses :: "call \<Rightarrow> error option" where
  "demo_refuses c =
     (case c of
        AxLegend a h l args kw \<Rightarrow>
          if map_of kw ''loc'' = Some (PStr ''nowhere'') then Some ValueError
          else (case map_of kw ''ncol'' of Some (PStr n) \<Rightarrow> Some TypeError | _ \<Rightarrow> None)
      | _ \<Rightarrow> None)"

definition demo_world :: world where
  "demo_world =
     \<lparr>axes_of = (\<lambda>r. new_axes\<lparr>xticks := [0, 1, 2, 3, 4, 5], yticks := [0, 1],
                                legend_entries := [(PObj 1, ''data'')]\<rparr>),
      fresh = 2, current_axes = 0, fig_axes = [0], fig_size = (6, 4),
      tight = (\<lambda>s r. (1 / 8, 1 / 4, 3 / 4, 1 / 2)),
      rcParams = [''axes.xmargin'' \<mapsto> double_005, ''axes.ymargin'' \<mapsto> double_005,
                  ''axes.linewidth'' \<mapsto> 1],
      refuses = demo_refuses,
      calls = []\<rparr>"

section \<open>Properties\<close>

text \<open>
  C2. For every side \<open>x\<close> among top, bottom, left and right, \<open>_opposite_side\<close> returns a
  side, and applied to that side it returns \<open>x\<close>: the lookup is an involution on the four
  side values.
\<close>

theorem opposite_side_involution:
  assumes "x \<in> {''top'', ''bottom'', ''left'', ''right''}"
  shows "\<exists>y. opposite_side x = Inr y \<and> opposite_side y = Inr x"
  using assms by (auto simp: opposite_side_def)

theorem opposite_side_involution_witness:
  "''top'' \<in> {''top'', ''bottom'', ''left'', ''right''}
   \<and> opposite_side ''top'' = Inr ''bottom'' \<and> opposite_side ''bottom'' = Inr ''top''
   \<and> opposite_side ''left'' = Inr ''right'' \<and> opposite_side ''right'' = Inr ''left''
   \<and> opposite_side ''north'' = Inl ValueError"
  using opposite_side_involution [of "''top''"] opposite_side_involution [of "''left''"]
  by (simp add: opposite_side_def)

section \<open>Rounding to binary64\<close>




lemma round_half_even_near:
  assumes "of_int n - 1 / 2 < y" and "y < of_int n + 1 / 2"
  shows "round_half_even y = n"
proof (cases "of_int n \<le> y")
  case True
  then have f: "\<lfloor>y\<rfloor> = n" using assms by (intro floor_unique) auto
  show ?thesis using assms by (simp add: round_half_even_def f)
next
  case False
  then have f: "\<lfloor>y\<rfloor> = n - 1" using assms by (intro floor_unique) auto
  show ?thesis using assms False by (simp add: round_half_even_def f)
qed

lemma float_exponent_minus: "float_exponent (- x) = float_exponent x"
  by (simp add: float_exponent_def)

lemma round_double_minus: "round_double (- x) = - round_double x"
  by (simp add: round_double_def Let_def sgn_minus float_exponent_minus)

lemma round_double_pos:
  assumes "0 < x"
  shows "round_double x =
           of_int (round_half_even (x / 2 powr (of_int (float_exponent x) - 52)))
             * 2 powr (of_int (float_exponent x) - 52)"
  using assms by (simp add: round_double_def Let_def)

lemma round_double_scaled:
  assumes x: "0 < x" and k: "k \<le> 1074"
    and lo: "2 ^ 52 \<le> x * 2 ^ k" and hi: "x * 2 ^ k < 2 ^ 53"
  shows "round_double x = of_int (round_half_even (x * 2 ^ k)) / 2 ^ k"
proof -
  have p: "(2::real) powr (52 - of_nat k) = 2 ^ 52 / 2 ^ k"
    by (simp add: powr_diff powr_realpow)
  have p1: "(2::real) powr (53 - of_nat k) = 2 ^ 53 / 2 ^ k"
    by (simp add: powr_diff powr_realpow)
  have "2 powr (of_int (52 - int k)) \<le> x \<and> x < 2 powr (of_int (52 - int k) + 1)"
    using lo hi by (simp add: p p1 field_simps)
  then have "\<lfloor>log 2 x\<rfloor> = 52 - int k"
    using floor_log_eq_powr_iff [of x 2 "52 - int k"] x by simp
  then have e: "float_exponent x = 52 - int k"
    using x k by (simp add: float_exponent_def)
  have u: "(2::real) powr (of_int (52 - int k) - 52) = 1 / 2 ^ k"
    by (simp add: powr_minus powr_realpow inverse_eq_divide)
  show ?thesis unfolding round_double_pos [OF x] e u by simp
qed

lemma round_double_eval:
  assumes "0 < x" and "k \<le> 1074" and "2 ^ 52 \<le> x * 2 ^ k" and "x * 2 ^ k < 2 ^ 53"
    and "of_int n - 1 / 2 < x * 2 ^ k" and "x * 2 ^ k < of_int n + 1 / 2"
  shows "round_double x = of_int n / 2 ^ k"
  using round_double_scaled [OF assms(1-4)] round_half_even_near [OF assms(5,6)] by simp






lemma round_double_0: "round_double 0 = 0"
  by (simp add: round_double_def)

lemma round_double_1: "round_double 1 = 1"
  using round_double_eval [of 1 52 "2 ^ 52"] by simp

section \<open>The range \<open>_minmax\<close> returns\<close>

lemma minmax_unfold:
  assumes "rc rcparam = Some m" and "round_double (1 + round_double (2 * m)) = den" and "den \<noteq> 0"
    and "round_double (b - a) = wd"
    and "round_double (a + round_double (round_double (round_double (m + 0) / den) * wd)) = lo"
    and "round_double (a + round_double (round_double (round_double (m + 1) / den) * wd)) = hi"
  shows "minmax rc (a, b) rcparam = Inr [lo, hi]"
  using assms by (simp add: minmax_def Let_def)













text \<open>
  The width has to be exact for the range to stay within the limits. For the limits
  \<open>-8.4\<close> and \<open>0.4\<close> (the floats nearest to them) and the margin 0 the subtraction rounds
  the width up, and the upper end of the range lies above the upper limit.
\<close>

lemma minmax_exceeds_limit:
  "minmax [''axes.xmargin'' \<mapsto> 0] (- (4728779608739021 / 2 ^ 49), 7205759403792794 / 2 ^ 54) ''axes.xmargin''
     = Inr [- (4728779608739021 / 2 ^ 49), 7205759403792800 / 2 ^ 54]
   \<and> round_double (- (4728779608739021 / 2 ^ 49)) = - (4728779608739021 / 2 ^ 49)
   \<and> round_double (7205759403792794 / 2 ^ 54) = 7205759403792794 / 2 ^ 54
   \<and> (7205759403792794 / 2 ^ 54 :: real) < 7205759403792800 / 2 ^ 54"
proof -
  have a: "round_double (4728779608739021 / 2 ^ 49) = 4728779608739021 / 2 ^ 49"
    by (rule round_double_eval [of _ 49 4728779608739021, THEN trans]) simp_all
  have a': "round_double (- (4728779608739021 / 2 ^ 49)) = - (4728779608739021 / 2 ^ 49)"
    by (simp only: round_double_minus a)
  have b: "round_double (7205759403792794 / 2 ^ 54) = 7205759403792794 / 2 ^ 54"
    by (rule round_double_eval [of _ 54 7205759403792794, THEN trans]) simp_all
  have wd: "round_double (7205759403792794 / 2 ^ 54 - - (4728779608739021 / 2 ^ 49))
              = 4953959590107546 / 2 ^ 49"
    by (rule round_double_eval [of _ 49 4953959590107546, THEN trans]) simp_all
  have wd': "round_double (4953959590107546 / 2 ^ 49) = 4953959590107546 / 2 ^ 49"
    by (rule round_double_eval [of _ 49 4953959590107546, THEN trans]) simp_all
  have hi: "round_double (- (4728779608739021 / 2 ^ 49) + 4953959590107546 / 2 ^ 49)
              = 7205759403792800 / 2 ^ 54"
    by (rule round_double_eval [of _ 54 7205759403792800, THEN trans]) simp_all
  have "minmax [''axes.xmargin'' \<mapsto> 0] (- (4728779608739021 / 2 ^ 49), 7205759403792794 / 2 ^ 54) ''axes.xmargin''
     = Inr [- (4728779608739021 / 2 ^ 49), 7205759403792800 / 2 ^ 54]"
  proof (rule minmax_unfold [where m = 0 and den = 1 and wd = "4953959590107546 / 2 ^ 49"])
    show "round_double (1 + round_double (2 * 0)) = 1"
      by (simp add: round_double_0 round_double_1)
    show "round_double (7205759403792794 / 2 ^ 54 - - (4728779608739021 / 2 ^ 49))
            = 4953959590107546 / 2 ^ 49" by (rule wd)
    show "round_double (- (4728779608739021 / 2 ^ 49)
            + round_double (round_double (round_double (0 + 0) / 1) * (4953959590107546 / 2 ^ 49)))
          = - (4728779608739021 / 2 ^ 49)"
      by (simp only: add_0 div_by_1 round_double_0 mult_zero_left add_0_right a')
    show "round_double (- (4728779608739021 / 2 ^ 49)
            + round_double (round_double (round_double (0 + 1) / 1) * (4953959590107546 / 2 ^ 49)))
          = 7205759403792800 / 2 ^ 54"
      by (simp only: add_0 div_by_1 round_double_1 mult_1 wd' hi)
  qed simp_all
  then show ?thesis using a' b by simp
qed

lemma activate_loop_invalid:
  assumes "\<exists>p \<in> set ps. p \<notin> positions"
  shows "activate_loop a ps w =
           (Inl ValueError, foldl (\<lambda>v p. set_positions a p v) w (takeWhile (\<lambda>p. p \<in> positions) ps))"
  using assms by (induction ps arbitrary: w) auto

text \<open>
  C6, as the code has it. A call of \<open>activate_axis\<close> with a list that holds a value
  outside bottom, top, left and right fails with \<open>ValueError\<close>. The loop checks each
  position just before it applies it: the positions before the first invalid one have
  been applied, in order, and neither the invalid one nor any after it.
\<close>

theorem activate_axis_invalid:
  assumes "\<exists>p \<in> set ps. p \<notin> positions"
  shows "activate_axis (PosList ps) ax w =
           (Inl ValueError,
            foldl (\<lambda>v p. set_positions (tools_gca ax w) p v) w (takeWhile (\<lambda>p. p \<in> positions) ps))"
  using activate_loop_invalid [OF assms] by (simp add: activate_axis_def)

theorem activate_axis_invalid_witness:
  "(\<exists>p \<in> set [''top'', ''north'']. p \<notin> positions)
   \<and> activate_axis (PosList [''top'', ''north'']) (Some 0) demo_world
       = (Inl ValueError, set_positions 0 ''top'' demo_world)"
  using activate_axis_invalid [of "[''top'', ''north'']" "Some 0" demo_world]
  by (simp add: positions_def tools_gca_def)

text \<open>
  The claim as stated fails: on the list \<open>[top, north]\<close> the call raises, and the ticks
  and the label of the x axis, at the bottom before the call, are at the top after it.
\<close>

theorem activate_axis_partial_effect:
  "fst (activate_axis (PosList [''top'', ''north'']) (Some 0) demo_world) = Inl ValueError
   \<and> xticks_position (axes_of demo_world 0) = ''bottom''
   \<and> xlabel_position (axes_of demo_world 0) = ''bottom''
   \<and> xticks_position (axes_of (snd (activate_axis (PosList [''top'', ''north'']) (Some 0) demo_world)) 0) = ''top''
   \<and> xlabel_position (axes_of (snd (activate_axis (PosList [''top'', ''north'']) (Some 0) demo_world)) 0) = ''top''"
  by (simp add: activate_axis_def tools_gca_def positions_def set_positions_def demo_world_def new_axes_def)

lemma map_of_append_new:
  "k \<notin> fst ` set kw \<Longrightarrow> map_of (kw @ [(k, v)]) k = Some v"
  by (induction kw) auto

text \<open>
  C9. \<open>imshow\<close> forwards the keyword arguments to \<^verbatim>\<open>ax.imshow\<close>: without a \<open>zorder\<close> from the
  caller they are the caller's with \<open>zorder\<close> set to 1 added, with one they are the caller's
  unchanged. It is the one call \<open>imshow\<close> makes.
\<close>

theorem imshow_zorder:
  "\<exists>a args' kw r. calls (snd (imshow args ax kwargs w)) = calls w @ [(AxImshow a args' kw, r)]
     \<and> (if has_key ''zorder'' kwargs then kw = kwargs
        else kw = kwargs @ [(''zorder'', PInt 1)] \<and> map_of kw ''zorder'' = Some (PInt 1))"
  by (auto simp: imshow_def parse_axes_def lib_new_def has_key_def map_of_append_new
        simp del: map_of_append)

theorem imshow_zorder_witness:
  "calls (snd (imshow [PStr ''data''] None [(''cmap'', PStr ''gray'')] demo_world))
     = [(AxImshow 0 [PStr ''data''] [(''cmap'', PStr ''gray''), (''zorder'', PInt 1)], PObj 2)]
   \<and> calls (snd (imshow [PStr ''data''] None [(''zorder'', PInt 5)] demo_world))
     = [(AxImshow 0 [PStr ''data''] [(''zorder'', PInt 5)], PObj 2)]"
  using imshow_zorder [of "[PStr ''data'']" None "[(''cmap'', PStr ''gray'')]" demo_world]
    imshow_zorder [of "[PStr ''data'']" None "[(''zorder'', PInt 5)]" demo_world]
  by (simp add: imshow_def parse_axes_def lib_new_def has_key_def tools_gca_def demo_world_def)

section \<open>The checks of \<open>legend\<close>\<close>

lemma check_outside_valid:
  "v \<in> outside_values \<Longrightarrow> check_outside v = None"
  by (auto simp: check_outside_def outside_values_def)

lemma shift_axis_valid:
  assumes "v \<in> outside_values"
  shows "shift_axis v w = (Inr PNone, snd (shift_axis v w))"
    and "calls (snd (shift_axis v w)) = calls w"
    and "fresh (snd (shift_axis v w)) = fresh w"
    and "refuses (snd (shift_axis v w)) = refuses w"
  using assms
  by (auto simp: outside_values_def shift_axis_def truthy_def opposite_side_def activate_axis_def
        Let_def positions_def set_positions_def)

lemma legend_call_is:
  "\<exists>h l kw. legend_call a args v axs kwargs w = AxLegend a h l args kw"
  by (simp add: legend_call_def Let_def)

lemma draw_legend_result:
  "(args \<noteq> [] \<and> draw_legend cfg a args v axs kwargs w1 = (Inl TypeError, w1))
   \<or> (args = [] \<and> (\<exists>e. refuses w1 (legend_call a args v axs kwargs w1) = Some e
                      \<and> draw_legend cfg a args v axs kwargs w1 = (Inl e, w1)))
   \<or> (args = [] \<and> refuses w1 (legend_call a args v axs kwargs w1) = None
        \<and> (fst (draw_legend cfg a args v axs kwargs w1) = Inl KeyError
           \<or> fst (draw_legend cfg a args v axs kwargs w1) = Inr (PObj (fresh w1))
             \<and> (legend_call a args v axs kwargs w1, PObj (fresh w1))
                 \<in> set (made w1 (snd (draw_legend cfg a args v axs kwargs w1)))))"
proof (cases "args \<noteq> []")
  case True
  then show ?thesis by (simp add: draw_legend_def)
next
  case False
  show ?thesis
  proof (cases "refuses w1 (legend_call a args v axs kwargs w1)")
    case (Some e)
    with False show ?thesis by (simp add: draw_legend_def)
  next
    case None
    with False show ?thesis
      by (auto simp: draw_legend_def Let_def lib_new_def lib_do_def made_def split: option.splits)
  qed
qed

lemma legend_unfold:
  assumes v: "v \<in> outside_values"
  shows "legend cfg args v ax axs kwargs w =
           (case parse_axs (tools_gca ax w) axs of
              Inl e \<Rightarrow> (Inl e, w)
            | Inr axs' \<Rightarrow> draw_legend cfg (tools_gca ax w) (fst (parse_axes args ax w)) v axs' kwargs
                            (snd (shift_axis v w)))"
  unfolding legend_def check_outside_valid [OF v]
  by (subst shift_axis_valid(1) [OF v]) (simp add: parse_axes_def split: sum.split)

lemma legend_bad_axs:
  assumes v: "v \<in> outside_values" and l: "\<not> list_all is_axes l"
  shows "legend cfg args v ax (Some l) kwargs w = (Inl TypeError, w)"
  using l by (simp add: legend_unfold [OF v] parse_axs_def)

lemma legend_good_axs:
  assumes v: "v \<in> outside_values" and l: "list_all is_axes l"
  shows "legend cfg args v ax (Some l) kwargs w
           = draw_legend cfg (tools_gca ax w) (fst (parse_axes args ax w)) v l kwargs
               (snd (shift_axis v w))"
  using l by (simp add: legend_unfold [OF v] parse_axs_def)

lemma legend_no_axs:
  assumes v: "v \<in> outside_values"
  shows "legend cfg args v ax None kwargs w
           = draw_legend cfg (tools_gca ax w) (fst (parse_axes args ax w)) v [PAxes (tools_gca ax w)] kwargs
               (snd (shift_axis v w))"
  by (simp add: legend_unfold [OF v] parse_axs_def)

lemma legend_drawn:
  assumes v: "v \<in> outside_values" and e: "fst (legend cfg args v ax axs kwargs w) \<noteq> Inl TypeError"
  shows "\<exists>axs'. legend cfg args v ax axs kwargs w
           = draw_legend cfg (tools_gca ax w) (fst (parse_axes args ax w)) v axs' kwargs
               (snd (shift_axis v w))"
proof (cases axs)
  case None
  then show ?thesis using legend_no_axs [OF v] by blast
next
  case (Some l)
  have "list_all is_axes l"
  proof (rule ccontr)
    assume "\<not> list_all is_axes l"
    then have "legend cfg args v ax (Some l) kwargs w = (Inl TypeError, w)"
      by (rule legend_bad_axs [OF v])
    with e Some show False by simp
  qed
  then show ?thesis using legend_good_axs [OF v] Some by blast
qed



lemma legend_rejects:
  "legend cfg args v ax axs kwargs w =
     (if \<not> hashable v then (Inl TypeError, w)
      else if v \<notin> outside_values then (Inl ValueError, w)
      else legend cfg args v ax axs kwargs w)"
  by (simp add: legend_def check_outside_def)







lemma legend_returns_handle:
  assumes "legend cfg args v ax axs kwargs w = (Inr r, w')"
  shows "\<exists>a h l args' kw. (AxLegend a h l args' kw, r) \<in> set (made w w')"
proof -
  have v: "v \<in> outside_values"
    using assms legend_rejects [of cfg args v ax axs kwargs w] by (auto split: if_splits)
  obtain axs' where
    e: "legend cfg args v ax axs kwargs w
          = draw_legend cfg (tools_gca ax w) (fst (parse_axes args ax w)) v axs' kwargs (snd (shift_axis v w))"
    using legend_drawn [OF v, of cfg args ax axs kwargs w] assms by auto
  have m: "made (snd (shift_axis v w)) w' = made w w'"
    using shift_axis_valid(2) [OF v, of w] by (simp add: made_def)
  obtain h l kw where
    k: "legend_call (tools_gca ax w) (fst (parse_axes args ax w)) v axs' kwargs (snd (shift_axis v w))
          = AxLegend (tools_gca ax w) h l (fst (parse_axes args ax w)) kw"
    using legend_call_is by blast
  have "(AxLegend (tools_gca ax w) h l (fst (parse_axes args ax w)) kw, r) \<in> set (made w w')"
    using draw_legend_result [of "fst (parse_axes args ax w)" cfg "tools_gca ax w" v axs' kwargs
        "snd (shift_axis v w)"] assms m
    unfolding e k by auto
  then show ?thesis by blast
qed

section \<open>The calls \<open>savefig\<close> makes\<close>

lemma reduce_ticks_fields:
  "fig_size (reduce_ticks l w) = fig_size w"
  "fig_axes (reduce_ticks l w) = fig_axes w"
  "tight (reduce_ticks l w) = tight w"
  "axes_of (reduce_ticks l w) = axes_of w"
  by (induction l arbitrary: w; simp add: Let_def lib_do_def)+

lemma savefig_unfold:
  fixes cfg :: config and w :: world
  assumes ax: "fig_axes w = ax # rest"
  defines "big \<equiv> mode cfg = ''poster'' \<or> mode cfg = ''beamer''"
  defines "s \<equiv> fig_size w"
  defines "s2 \<equiv> (if big then (round_double (3 * fst s), round_double (3 * snd s)) else s)"
  defines "w1 \<equiv> (if style cfg = ''minimal'' then reduce_ticks (ax # rest) w else w)"
  defines "w2 \<equiv> (if big then set_size_inches (round_double (3 * fst s), round_double (3 * snd s)) w1 else w1)"
  defines "w3 \<equiv> tight_layout w2"
  assumes t: "tight w s2 ax = (x0, y0, wd, ht)"
  shows "savefig cfg fname ucs kwargs w =
           (if ucs \<and> (wd = 0 \<or> ht = 0) then (Inl LibraryError, w3)
            else (Inr PNone,
                  set_size_inches s
                    (plt_savefig (saved_name fname kwargs) kwargs
                       (if ucs then set_size_inches (round_double (fst s / wd), round_double (snd s / ht)) w3 else w3))))"
proof -
  have w1f: "fig_size w1 = s" "fig_axes w1 = ax # rest" "tight w1 = tight w"
    by (simp_all add: w1_def reduce_ticks_fields s_def ax del: reduce_ticks.simps)
  have w2f: "fig_size w2 = s2" "fig_axes w2 = ax # rest" "tight w2 = tight w"
    by (simp_all add: w2_def s2_def set_size_inches_def w1f)
  have b: "bounds (axes_of w3 ax) = (x0, y0, wd, ht)"
    by (simp add: w3_def tight_layout_def w2f t)
  have w2': "(if mode cfg = ''poster'' then set_size_inches (round_double (3 * fst s), round_double (3 * snd s)) w1
              else if mode cfg = ''beamer'' then set_size_inches (round_double (3 * fst s), round_double (3 * snd s)) w1
              else w1) = w2"
    by (simp add: w2_def big_def)
  show ?thesis
    unfolding savefig_def ax list.case Let_def
    unfolding s_def [symmetric] w1_def [symmetric] w2' w3_def [symmetric] b
    by (simp del: reduce_ticks.simps)
qed

lemma savefig_trace:
  assumes r: "savefig cfg fname ucs kwargs w = (Inr r, w')"
  shows "r = PNone \<and> fig_size w' = fig_size w \<and>
    (\<exists>ax rest x0 y0 wd ht. fig_axes w = ax # rest \<and>
       tight w (if mode cfg = ''poster'' \<or> mode cfg = ''beamer''
                then (round_double (3 * fst (fig_size w)), round_double (3 * snd (fig_size w))) else fig_size w) ax = (x0, y0, wd, ht) \<and>
       calls w' =
         calls (if style cfg = ''minimal'' then reduce_ticks (fig_axes w) w else w)
         @ (if mode cfg = ''poster'' \<or> mode cfg = ''beamer''
            then [(FigSetSizeInches (round_double (3 * fst (fig_size w)), round_double (3 * snd (fig_size w))), PNone),
                  (FigTightLayout (round_double (3 * fst (fig_size w)), round_double (3 * snd (fig_size w))), PNone)]
            else [(FigTightLayout (fig_size w), PNone)])
         @ (if ucs then [(FigSetSizeInches (round_double (fst (fig_size w) / wd), round_double (snd (fig_size w) / ht)), PNone),
                         (PltSavefig (saved_name fname kwargs) kwargs (round_double (fst (fig_size w) / wd), round_double (snd (fig_size w) / ht)), PNone)]
            else [(PltSavefig (saved_name fname kwargs) kwargs
                     (if mode cfg = ''poster'' \<or> mode cfg = ''beamer''
                      then (round_double (3 * fst (fig_size w)), round_double (3 * snd (fig_size w))) else fig_size w), PNone)])
         @ [(FigSetSizeInches (fig_size w), PNone)])"
proof (cases "fig_axes w")
  case Nil
  with r show ?thesis by (simp add: savefig_def)
next
  case (Cons ax rest)
  obtain x0 y0 wd ht where t: "tight w (if mode cfg = ''poster'' \<or> mode cfg = ''beamer''
                then (round_double (3 * fst (fig_size w)), round_double (3 * snd (fig_size w))) else fig_size w) ax = (x0, y0, wd, ht)"
    by (metis prod_cases4)
  note u = savefig_unfold [OF Cons t, of fname ucs kwargs, folded Cons]
  have ok: "\<not> (ucs \<and> (wd = 0 \<or> ht = 0))"
    using r u by (auto split: if_splits)
  have w': "w' = set_size_inches (fig_size w)
                    (plt_savefig (saved_name fname kwargs) kwargs
                       (if ucs then set_size_inches (round_double (fst (fig_size w) / wd), round_double (snd (fig_size w) / ht))
                           (tight_layout (if mode cfg = ''poster'' \<or> mode cfg = ''beamer''
                              then set_size_inches (round_double (3 * fst (fig_size w)), round_double (3 * snd (fig_size w)))
                                 (if style cfg = ''minimal'' then reduce_ticks (fig_axes w) w else w)
                              else (if style cfg = ''minimal'' then reduce_ticks (fig_axes w) w else w)))
                        else (tight_layout (if mode cfg = ''poster'' \<or> mode cfg = ''beamer''
                              then set_size_inches (round_double (3 * fst (fig_size w)), round_double (3 * snd (fig_size w)))
                                 (if style cfg = ''minimal'' then reduce_ticks (fig_axes w) w else w)
                              else (if style cfg = ''minimal'' then reduce_ticks (fig_axes w) w else w)))))"
    and rr: "r = PNone"
    using r u ok by simp_all
  have c: "calls w' =
         calls (if style cfg = ''minimal'' then reduce_ticks (fig_axes w) w else w)
         @ (if mode cfg = ''poster'' \<or> mode cfg = ''beamer''
            then [(FigSetSizeInches (round_double (3 * fst (fig_size w)), round_double (3 * snd (fig_size w))), PNone),
                  (FigTightLayout (round_double (3 * fst (fig_size w)), round_double (3 * snd (fig_size w))), PNone)]
            else [(FigTightLayout (fig_size w), PNone)])
         @ (if ucs then [(FigSetSizeInches (round_double (fst (fig_size w) / wd), round_double (snd (fig_size w) / ht)), PNone),
                         (PltSavefig (saved_name fname kwargs) kwargs (round_double (fst (fig_size w) / wd), round_double (snd (fig_size w) / ht)), PNone)]
            else [(PltSavefig (saved_name fname kwargs) kwargs
                     (if mode cfg = ''poster'' \<or> mode cfg = ''beamer''
                      then (round_double (3 * fst (fig_size w)), round_double (3 * snd (fig_size w))) else fig_size w), PNone)])
         @ [(FigSetSizeInches (fig_size w), PNone)]"
    unfolding w'
    by (simp add: set_size_inches_def plt_savefig_def tight_layout_def reduce_ticks_fields
          del: reduce_ticks.simps)
  have fs: "fig_size w' = fig_size w" unfolding w' by (simp add: set_size_inches_def)
  show ?thesis using rr fs Cons t c by blast
qed

lemma reduce_ticks_calls:
  "\<exists>ticks. calls (reduce_ticks l w) = calls w @ ticks \<and> (\<forall>c \<in> set ticks. \<not> is_savefig (fst c))"
proof (induction l arbitrary: w)
  case Nil
  show ?case by simp
next
  case (Cons a l)
  let ?w1 = "if 4 < length (xticks (axes_of w a))
             then lib_do (LocatorParams a ''x'' (round_double (real (length (xticks (axes_of w a))) / (3 / 2)))) w else w"
  let ?w2 = "if 4 < length (yticks (axes_of ?w1 a))
             then lib_do (LocatorParams a ''y'' (round_double (real (length (yticks (axes_of ?w1 a))) / (3 / 2)))) ?w1 else ?w1"
  have e: "reduce_ticks (a # l) w = reduce_ticks l ?w2" by (simp add: Let_def)
  have "\<exists>c2. calls ?w2 = calls w @ c2 \<and> (\<forall>c \<in> set c2. \<not> is_savefig (fst c))"
    by (simp add: lib_do_def is_savefig_def)
  then obtain c2 where c2: "calls ?w2 = calls w @ c2" "\<forall>c \<in> set c2. \<not> is_savefig (fst c)" by blast
  obtain t where t: "calls (reduce_ticks l ?w2) = calls ?w2 @ t" "\<forall>c \<in> set t. \<not> is_savefig (fst c)"
    using Cons.IH [of ?w2] by blast
  have "calls (reduce_ticks (a # l) w) = calls w @ (c2 @ t)"
    unfolding e t(1) c2(1) by simp
  moreover have "\<forall>c \<in> set (c2 @ t). \<not> is_savefig (fst c)" using c2(2) t(2) by auto
  ultimately show ?case by blast
qed

lemma round_double_small:
  "round_double 4 = 4" "round_double 8 = 8" "round_double 12 = 12" "round_double 18 = 18"
proof -
  show "round_double 4 = 4"
    by (rule round_double_eval [of _ 50 4503599627370496, THEN trans]) simp_all
  show "round_double 8 = 8"
    by (rule round_double_eval [of _ 49 4503599627370496, THEN trans]) simp_all
  show "round_double 12 = 12"
    by (rule round_double_eval [of _ 49 6755399441055744, THEN trans]) simp_all
  show "round_double 18 = 18"
    by (rule round_double_eval [of _ 48 5066549580791808, THEN trans]) simp_all
qed

lemma savefig_no_axes:
  "fig_axes w = [] \<Longrightarrow> savefig cfg fname use_canvas_size kwargs w = (Inl IndexError, w)"
  by (simp add: savefig_def)

lemma savefig_returns:
  assumes ax: "fig_axes w = ax # rest"
    and t: "tight w (if mode cfg = ''poster'' \<or> mode cfg = ''beamer''
                     then (round_double (3 * fst (fig_size w)), round_double (3 * snd (fig_size w)))
                     else fig_size w) ax = (x0, y0, wd, ht)"
    and nz: "\<not> (use_canvas_size \<and> (wd = 0 \<or> ht = 0))"
  shows "\<exists>w'. savefig cfg fname use_canvas_size kwargs w = (Inr PNone, w')"
  using savefig_unfold [OF ax t, of fname use_canvas_size kwargs] nz by simp

text \<open>
  C1, as the code has it. Under the mode \<open>poster\<close> or \<open>beamer\<close>, on a figure with at least
  one axes, \<open>savefig\<close> sets the size of the figure to three times its size at entry, in
  each dimension, and lays the figure out at that size. Without \<open>use_canvas_size\<close> the
  file is written at the scaled size. With \<open>use_canvas_size\<close> (the default) the size is
  set once more before the file is written, to the size at entry (not the scaled one)
  divided by the share that the layout gave the first axes, and the file is written at
  that size; the shares must not be zero. In both cases the call returns \<open>None\<close>, its
  last call on the library sets the size read at entry, and the figure has that size
  afterwards. The products and the quotients are those of floating point.
\<close>

theorem savefig_scales_and_restores:
  assumes m: "mode cfg = ''poster'' \<or> mode cfg = ''beamer''"
      and ax: "fig_axes w = ax # rest"
      and t: "tight w (round_double (3 * fst (fig_size w)), round_double (3 * snd (fig_size w))) ax
                = (x0, y0, wd, ht)"
      and nz: "use_canvas_size \<longrightarrow> wd \<noteq> 0 \<and> ht \<noteq> 0"
  shows "\<exists>w'. savefig cfg fname use_canvas_size kwargs w = (Inr PNone, w')
           \<and> fig_size w' = fig_size w
           \<and> calls w' =
               calls (if style cfg = ''minimal'' then reduce_ticks (fig_axes w) w else w)
               @ [(FigSetSizeInches (round_double (3 * fst (fig_size w)), round_double (3 * snd (fig_size w))), PNone),
                  (FigTightLayout (round_double (3 * fst (fig_size w)), round_double (3 * snd (fig_size w))), PNone)]
               @ (if use_canvas_size
                  then [(FigSetSizeInches (round_double (fst (fig_size w) / wd), round_double (snd (fig_size w) / ht)), PNone),
                        (PltSavefig (saved_name fname kwargs) kwargs
                           (round_double (fst (fig_size w) / wd), round_double (snd (fig_size w) / ht)), PNone)]
                  else [(PltSavefig (saved_name fname kwargs) kwargs
                           (round_double (3 * fst (fig_size w)), round_double (3 * snd (fig_size w))), PNone)])
               @ [(FigSetSizeInches (fig_size w), PNone)]"
proof -
  have t': "tight w (if mode cfg = ''poster'' \<or> mode cfg = ''beamer''
                     then (round_double (3 * fst (fig_size w)), round_double (3 * snd (fig_size w)))
                     else fig_size w) ax = (x0, y0, wd, ht)"
    using m t by simp
  have nz': "\<not> (use_canvas_size \<and> (wd = 0 \<or> ht = 0))" using nz by auto
  obtain w' where r: "savefig cfg fname use_canvas_size kwargs w = (Inr PNone, w')"
    using savefig_returns [OF ax t' nz'] by blast
  show ?thesis
    using savefig_trace [OF r] r m ax t by (cases use_canvas_size) auto
qed

theorem savefig_scales_and_restores_witness:
  "(mode \<lparr>style = ''minimal'', mode = ''poster''\<rparr> = ''poster''
      \<or> mode \<lparr>style = ''minimal'', mode = ''poster''\<rparr> = ''beamer'')
   \<and> fig_axes demo_world = [0]
   \<and> tight demo_world (round_double (3 * fst (fig_size demo_world)), round_double (3 * snd (fig_size demo_world))) 0
       = (1 / 8, 1 / 4, 3 / 4, 1 / 2)
   \<and> savefig \<lparr>style = ''minimal'', mode = ''poster''\<rparr> ''figure.png'' False [] demo_world
       = (Inr PNone, snd (savefig \<lparr>style = ''minimal'', mode = ''poster''\<rparr> ''figure.png'' False [] demo_world))
   \<and> fig_size (snd (savefig \<lparr>style = ''minimal'', mode = ''poster''\<rparr> ''figure.png'' False [] demo_world)) = (6, 4)
   \<and> calls (snd (savefig \<lparr>style = ''minimal'', mode = ''poster''\<rparr> ''figure.png'' False [] demo_world))
       = [(LocatorParams 0 ''x'' 4, PNone),
          (FigSetSizeInches (18, 12), PNone), (FigTightLayout (18, 12), PNone),
          (PltSavefig ''figure.png'' [] (18, 12), PNone),
          (FigSetSizeInches (6, 4), PNone)]
   \<and> savefig \<lparr>style = ''minimal'', mode = ''poster''\<rparr> ''figure.png'' True [] demo_world
       = (Inr PNone, snd (savefig \<lparr>style = ''minimal'', mode = ''poster''\<rparr> ''figure.png'' True [] demo_world))
   \<and> fig_size (snd (savefig \<lparr>style = ''minimal'', mode = ''poster''\<rparr> ''figure.png'' True [] demo_world)) = (6, 4)
   \<and> calls (snd (savefig \<lparr>style = ''minimal'', mode = ''poster''\<rparr> ''figure.png'' True [] demo_world))
       = [(LocatorParams 0 ''x'' 4, PNone),
          (FigSetSizeInches (18, 12), PNone), (FigTightLayout (18, 12), PNone),
          (FigSetSizeInches (8, 8), PNone), (PltSavefig ''figure.png'' [] (8, 8), PNone),
          (FigSetSizeInches (6, 4), PNone)]"
  using
    savefig_scales_and_restores [of "\<lparr>style = ''minimal'', mode = ''poster''\<rparr>" demo_world 0 "[]"
      "1 / 8" "1 / 4" "3 / 4" "1 / 2" False "''figure.png''" "[]"]
    savefig_scales_and_restores [of "\<lparr>style = ''minimal'', mode = ''poster''\<rparr>" demo_world 0 "[]"
      "1 / 8" "1 / 4" "3 / 4" "1 / 2" True "''figure.png''" "[]"]
  by (simp add: savefig_def demo_world_def new_axes_def Let_def set_size_inches_def tight_layout_def
        plt_savefig_def lib_do_def saved_name_def has_key_def splitext_def round_double_small)

text \<open>
  The claim as stated fails for the default \<open>use_canvas_size\<close>: the file is not written
  at three times the size at entry. The figure of 6 by 4 inches, laid out at 18 by 12, is
  written at 8 by 8, the size at entry divided by the shares 3/4 and 1/2 of its axes.
\<close>

theorem savefig_canvas_size_not_scaled:
  "fst (savefig \<lparr>style = ''default'', mode = ''poster''\<rparr> ''figure.png'' True [] demo_world) = Inr PNone
   \<and> fig_size demo_world = (6, 4)
   \<and> calls (snd (savefig \<lparr>style = ''default'', mode = ''poster''\<rparr> ''figure.png'' True [] demo_world))
       = [(FigSetSizeInches (18, 12), PNone), (FigTightLayout (18, 12), PNone),
          (FigSetSizeInches (8, 8), PNone), (PltSavefig ''figure.png'' [] (8, 8), PNone),
          (FigSetSizeInches (6, 4), PNone)]
   \<and> (8 :: real, 8 :: real) \<noteq> (3 * 6, 3 * 4)"
  by (simp add: savefig_def demo_world_def new_axes_def Let_def set_size_inches_def tight_layout_def
        plt_savefig_def saved_name_def has_key_def splitext_def round_double_small)

text \<open>
  C5, as the code has it. The suffix is added only when the caller gives no \<open>format\<close>
  keyword. A call of \<open>savefig\<close> that returns has written one file: under \<open>fname\<close> when
  \<open>format\<close> is given, else under \<open>fname\<close> with \<open>.pdf\<close> appended when the extension of
  \<open>fname\<close> is empty, else under \<open>fname\<close>.
\<close>

theorem savefig_default_suffix:
  assumes r: "savefig cfg fname use_canvas_size kwargs w = (Inr r, w')"
  shows "\<exists>new name sz.
           calls w' = calls w @ new
           \<and> filter is_savefig (map fst new) = [PltSavefig name kwargs sz]
           \<and> (if has_key ''format'' kwargs then name = fname
               else if drop 1 (snd (splitext fname)) = [] then name = fname @ ''.pdf''
               else name = fname)"
proof -
  obtain ticks where t: "calls (if style cfg = ''minimal'' then reduce_ticks (fig_axes w) w else w) = calls w @ ticks"
      "\<forall>c \<in> set ticks. \<not> is_savefig (fst c)"
    using reduce_ticks_calls [of "fig_axes w" w] by (cases "style cfg = ''minimal''") auto
  have nf: "filter is_savefig (map fst ticks) = []" using t(2) by (simp add: filter_empty_conv)
  have n: "if has_key ''format'' kwargs then saved_name fname kwargs = fname
           else if drop 1 (snd (splitext fname)) = [] then saved_name fname kwargs = fname @ ''.pdf''
           else saved_name fname kwargs = fname"
    by (simp add: saved_name_def)
  from savefig_trace [OF r] obtain rest where
    c: "calls w' = calls (if style cfg = ''minimal'' then reduce_ticks (fig_axes w) w else w) @ rest"
    and f: "\<exists>sz. filter is_savefig (map fst rest) = [PltSavefig (saved_name fname kwargs) kwargs sz]"
    by (cases use_canvas_size; cases "mode cfg = ''poster'' \<or> mode cfg = ''beamer''")
       (auto simp: is_savefig_def)
  from f obtain sz where f': "filter is_savefig (map fst rest) = [PltSavefig (saved_name fname kwargs) kwargs sz]"
    by blast
  have "calls w' = calls w @ (ticks @ rest)" using c t(1) by simp
  moreover have "filter is_savefig (map fst (ticks @ rest)) = [PltSavefig (saved_name fname kwargs) kwargs sz]"
    using nf f' by simp
  ultimately show ?thesis using n by blast
qed

theorem savefig_default_suffix_witness:
  "fst (savefig \<lparr>style = ''default'', mode = ''default''\<rparr> ''out/figure'' False [] demo_world) = Inr PNone
   \<and> calls (snd (savefig \<lparr>style = ''default'', mode = ''default''\<rparr> ''out/figure'' False [] demo_world))
       = [(FigTightLayout (6, 4), PNone), (PltSavefig ''out/figure.pdf'' [] (6, 4), PNone),
          (FigSetSizeInches (6, 4), PNone)]
   \<and> calls (snd (savefig \<lparr>style = ''default'', mode = ''default''\<rparr> ''figure.v2.png'' False [] demo_world))
       = [(FigTightLayout (6, 4), PNone), (PltSavefig ''figure.v2.png'' [] (6, 4), PNone),
          (FigSetSizeInches (6, 4), PNone)]"
  using
    savefig_default_suffix [of "\<lparr>style = ''default'', mode = ''default''\<rparr>" "''out/figure''" False "[]"
      demo_world PNone "snd (savefig \<lparr>style = ''default'', mode = ''default''\<rparr> ''out/figure'' False [] demo_world)"]
    savefig_default_suffix [of "\<lparr>style = ''default'', mode = ''default''\<rparr>" "''figure.v2.png''" False "[]"
      demo_world PNone "snd (savefig \<lparr>style = ''default'', mode = ''default''\<rparr> ''figure.v2.png'' False [] demo_world)"]
  by (simp add: savefig_def demo_world_def new_axes_def Let_def set_size_inches_def tight_layout_def
        plt_savefig_def saved_name_def has_key_def splitext_def)

text \<open>
  The claim as stated fails when the caller gives \<open>format\<close>: the extension of \<open>figure\<close> is
  empty, and the file is written under \<open>figure\<close>.
\<close>

theorem savefig_format_keeps_name:
  "snd (splitext ''figure'') = []
   \<and> fst (savefig \<lparr>style = ''default'', mode = ''default''\<rparr> ''figure'' False
           [(''format'', PStr ''png'')] demo_world) = Inr PNone
   \<and> calls (snd (savefig \<lparr>style = ''default'', mode = ''default''\<rparr> ''figure'' False
           [(''format'', PStr ''png'')] demo_world))
       = [(FigTightLayout (6, 4), PNone), (PltSavefig ''figure'' [(''format'', PStr ''png'')] (6, 4), PNone),
          (FigSetSizeInches (6, 4), PNone)]"
  by (simp add: savefig_def demo_world_def new_axes_def Let_def set_size_inches_def tight_layout_def
        plt_savefig_def saved_name_def has_key_def splitext_def)

section \<open>The axes \<open>colorbar\<close> leaves active\<close>

lemma activate_axis_Pos_valid:
  "p \<in> positions \<Longrightarrow> activate_axis (Pos p) ax w = (Inr PNone, set_positions (tools_gca ax w) p w)"
  by (simp add: activate_axis_def)

lemma activate_axis_Pos_invalid:
  "p \<notin> positions \<Longrightarrow> activate_axis (Pos p) ax w = (Inl ValueError, w)"
  by (simp add: activate_axis_def)

lemma opposite_side_positions:
  "opposite_side p = Inr q \<Longrightarrow> q \<in> positions"
  by (auto simp: opposite_side_def positions_def split: if_splits)

lemma opposite_side_valid:
  "p \<in> positions \<Longrightarrow> \<exists>q. opposite_side p = Inr q"
  by (auto simp: opposite_side_def positions_def)

lemma set_positions_fields:
  "fresh (set_positions a p w) = fresh w"
  "calls (set_positions a p w) = calls w"
  "current_axes (set_positions a p w) = current_axes w"
  by (simp_all add: set_positions_def)

lemma set_positions_active:
  assumes "p \<in> positions"
  shows "if p \<in> {''top'', ''bottom''}
         then xticks_position (axes_of (set_positions a p w) a) = p
            \<and> xlabel_position (axes_of (set_positions a p w) a) = p
         else yticks_position (axes_of (set_positions a p w) a) = p
            \<and> ylabel_position (axes_of (set_positions a p w) a) = p"
  using assms by (auto simp: positions_def set_positions_def)

lemma append_axes_valid:
  assumes "p \<in> positions"
  shows "append_axes ax p wd pd w = Inr (fresh w, snd (projr (append_axes ax p wd pd w)))"
    and "fresh (snd (projr (append_axes ax p wd pd w))) = Suc (fresh w)"
    and "calls (snd (projr (append_axes ax p wd pd w)))
           = calls w @ [(AppendAxes ax p wd pd, PAxes (fresh w))]"
    and "a < fresh w \<Longrightarrow> axes_of (snd (projr (append_axes ax p wd pd w))) a = axes_of w a"
  using assms by (auto simp: append_axes_def positions_def)

lemma append_axes_invalid:
  "p \<notin> positions \<Longrightarrow> append_axes ax p wd pd w = Inl ValueError"
  by (auto simp: append_axes_def positions_def)

lemma lib_projections:
  "fst (lib_new c w) = PObj (fresh w)"
  "fresh (snd (lib_new c w)) = Suc (fresh w)"
  "fresh (lib_do c w) = fresh w"
  by (simp_all add: lib_new_def lib_do_def)

lemma colorbar_unfold:
  assumes p: "p \<in> positions" and o: "opposite_side p = Inr opp"
  shows "\<exists>w3 w5. fresh w3 = Suc (Suc (fresh w))
           \<and> (PltColorbar im (fresh w) (if p \<in> {''top'', ''bottom''} then ''horizontal'' else ''vertical''),
               PObj (Suc (fresh w))) \<in> set (made w w3)
           \<and> w5 = set_positions (image_axes im w) opp (set_positions (fresh w) p w3)
           \<and> colorbar im width pad p label kwargs w =
               (Inr (PObj (Suc (fresh w))),
                lib_do (SetVisible (fresh w5) False)
                  (snd (projr (append_axes (image_axes im w) p (invert_sign width) (invert_sign pad) w5))))"
proof -
  have q: "opp \<in> positions" using o by (rule opposite_side_positions)
  define w0 where "w0 = lib_do (MakeAxesLocatable (image_axes im w)) w"
  define w1 where "w1 = snd (projr (append_axes (image_axes im w) p width pad w0))"
  define w2 where "w2 = snd (lib_new (PltColorbar im (fresh w) (if p \<in> {''top'', ''bottom''} then ''horizontal'' else ''vertical'')) w1)"
  define w3 where "w3 = (case label of None \<Rightarrow> w2
                         | Some l \<Rightarrow> if l \<noteq> [] then lib_do (CbarSetLabel (PObj (Suc (fresh w))) l) w2 else w2)"
  define w5 where "w5 = set_positions (image_axes im w) opp (set_positions (fresh w) p w3)"
  have f0: "fresh w0 = fresh w" and c0: "calls w0 = calls w @ [(MakeAxesLocatable (image_axes im w), PNone)]"
    by (simp_all add: w0_def lib_do_def)
  have a1: "append_axes (image_axes im w) p width pad w0 = Inr (fresh w, w1)"
    using append_axes_valid(1) [OF p, of "image_axes im w" width pad w0] by (simp add: w1_def f0)
  have f1: "fresh w1 = Suc (fresh w)"
    using append_axes_valid(2) [OF p, of "image_axes im w" width pad w0] by (simp add: w1_def f0)
  have c1: "calls w1 = calls w @ [(MakeAxesLocatable (image_axes im w), PNone),
                                  (AppendAxes (image_axes im w) p width pad, PAxes (fresh w))]"
    using append_axes_valid(3) [OF p, of "image_axes im w" width pad w0] by (simp add: w1_def f0 c0)
  have l2: "lib_new (PltColorbar im (fresh w) (if p \<in> {''top'', ''bottom''} then ''horizontal'' else ''vertical'')) w1
              = (PObj (Suc (fresh w)), w2)"
    by (simp add: w2_def lib_new_def f1)
  have f2: "fresh w2 = Suc (Suc (fresh w))"
    and c2: "(PltColorbar im (fresh w) (if p \<in> {''top'', ''bottom''} then ''horizontal'' else ''vertical''),
               PObj (Suc (fresh w))) \<in> set (made w w2)"
    by (simp_all add: w2_def lib_new_def f1 c1 made_def)
  have f3: "fresh w3 = Suc (Suc (fresh w))"
    and c3: "(PltColorbar im (fresh w) (if p \<in> {''top'', ''bottom''} then ''horizontal'' else ''vertical''),
               PObj (Suc (fresh w))) \<in> set (made w w3)"
    using f2 c2 by (auto simp: w3_def lib_do_def made_def split: option.splits)
  have f5: "fresh w5 = Suc (Suc (fresh w))" using f3 by (simp add: w5_def set_positions_fields)
  have a5: "append_axes (image_axes im w) p (invert_sign width) (invert_sign pad) w5
              = Inr (fresh w5, snd (projr (append_axes (image_axes im w) p (invert_sign width) (invert_sign pad) w5)))"
    by (rule append_axes_valid(1) [OF p])
  have act1: "activate_axis (Pos p) (Some (fresh w)) w3 = (Inr PNone, set_positions (fresh w) p w3)"
    using activate_axis_Pos_valid [OF p, of "Some (fresh w)" w3] by (simp add: tools_gca_def)
  have act2: "activate_axis (Pos opp) (Some (image_axes im w)) (set_positions (fresh w) p w3) = (Inr PNone, w5)"
    using activate_axis_Pos_valid [OF q, of "Some (image_axes im w)" "set_positions (fresh w) p w3"]
    by (simp add: tools_gca_def w5_def)
  have e: "colorbar im width pad p label kwargs w =
               (Inr (PObj (Suc (fresh w))),
                lib_do (SetVisible (fresh w5) False)
                  (snd (projr (append_axes (image_axes im w) p (invert_sign width) (invert_sign pad) w5))))"
    unfolding colorbar_def Let_def w0_def [symmetric] a1 sum.case prod.case l2
      w3_def [symmetric] act1 o act2
    by (subst a5) simp
  show ?thesis using f3 c3 e w5_def by blast
qed

lemma colorbar_active:
  assumes p: "p \<in> positions" and ax: "image_axes im w < fresh w"
  shows "\<exists>r w' opp. colorbar im width pad p label kwargs w = (Inr r, w')
            \<and> opposite_side p = Inr opp
            \<and> (if opp \<in> {''top'', ''bottom''}
                then xticks_position (axes_of w' (image_axes im w)) = opp
                   \<and> xlabel_position (axes_of w' (image_axes im w)) = opp
                else yticks_position (axes_of w' (image_axes im w)) = opp
                   \<and> ylabel_position (axes_of w' (image_axes im w)) = opp)"
proof -
  obtain opp where o: "opposite_side p = Inr opp" using opposite_side_valid [OF p] by blast
  have q: "opp \<in> positions" using o by (rule opposite_side_positions)
  obtain w3 w5 where f3: "fresh w3 = Suc (Suc (fresh w))"
    and w5: "w5 = set_positions (image_axes im w) opp (set_positions (fresh w) p w3)"
    and e: "colorbar im width pad p label kwargs w =
               (Inr (PObj (Suc (fresh w))),
                lib_do (SetVisible (fresh w5) False)
                  (snd (projr (append_axes (image_axes im w) p (invert_sign width) (invert_sign pad) w5))))"
    using colorbar_unfold [OF p o, of w im width pad label kwargs] by blast
  let ?w' = "lib_do (SetVisible (fresh w5) False)
                  (snd (projr (append_axes (image_axes im w) p (invert_sign width) (invert_sign pad) w5)))"
  have f5: "fresh w5 = Suc (Suc (fresh w))" using f3 by (simp add: w5 set_positions_fields)
  have "image_axes im w < fresh w5" using ax f5 by simp
  then have "axes_of ?w' (image_axes im w) = axes_of w5 (image_axes im w)"
    using append_axes_valid(4) [OF p, of "image_axes im w" w5 "image_axes im w" "invert_sign width" "invert_sign pad"]
    by (simp add: lib_do_def)
  then have "if opp \<in> {''top'', ''bottom''}
                then xticks_position (axes_of ?w' (image_axes im w)) = opp
                   \<and> xlabel_position (axes_of ?w' (image_axes im w)) = opp
                else yticks_position (axes_of ?w' (image_axes im w)) = opp
                   \<and> ylabel_position (axes_of ?w' (image_axes im w)) = opp"
    using set_positions_active [OF q, of "image_axes im w" "set_positions (fresh w) p w3"]
    by (simp add: w5)
  with e o show ?thesis by blast
qed

text \<open>
  C4. For each of the four positions \<open>colorbar\<close> returns, and the axes of the image then
  have their ticks and their label on the side opposite to the position: on the right for
  left, on the left for right (the y axis), at the bottom for top and at the top for
  bottom (the x axis). The axes of the image are an object that exists before the call
  (its identity is below \<open>fresh\<close>), so the axes that \<open>colorbar\<close> creates are other objects.
\<close>

theorem colorbar_opposite_active:
  assumes ax: "image_axes im w < fresh w"
  shows "(\<exists>r w'. colorbar im width pad ''left'' label kwargs w = (Inr r, w')
            \<and> yticks_position (axes_of w' (image_axes im w)) = ''right''
            \<and> ylabel_position (axes_of w' (image_axes im w)) = ''right'')
       \<and> (\<exists>r w'. colorbar im width pad ''right'' label kwargs w = (Inr r, w')
            \<and> yticks_position (axes_of w' (image_axes im w)) = ''left''
            \<and> ylabel_position (axes_of w' (image_axes im w)) = ''left'')
       \<and> (\<exists>r w'. colorbar im width pad ''top'' label kwargs w = (Inr r, w')
            \<and> xticks_position (axes_of w' (image_axes im w)) = ''bottom''
            \<and> xlabel_position (axes_of w' (image_axes im w)) = ''bottom'')
       \<and> (\<exists>r w'. colorbar im width pad ''bottom'' label kwargs w = (Inr r, w')
            \<and> xticks_position (axes_of w' (image_axes im w)) = ''top''
            \<and> xlabel_position (axes_of w' (image_axes im w)) = ''top'')"
proof (intro conjI)
  show "\<exists>r w'. colorbar im width pad ''left'' label kwargs w = (Inr r, w')
            \<and> yticks_position (axes_of w' (image_axes im w)) = ''right''
            \<and> ylabel_position (axes_of w' (image_axes im w)) = ''right''"
    using colorbar_active [of "''left''" im w width pad label kwargs] ax
    by (auto simp: positions_def opposite_side_def)
  show "\<exists>r w'. colorbar im width pad ''right'' label kwargs w = (Inr r, w')
            \<and> yticks_position (axes_of w' (image_axes im w)) = ''left''
            \<and> ylabel_position (axes_of w' (image_axes im w)) = ''left''"
    using colorbar_active [of "''right''" im w width pad label kwargs] ax
    by (auto simp: positions_def opposite_side_def)
  show "\<exists>r w'. colorbar im width pad ''top'' label kwargs w = (Inr r, w')
            \<and> xticks_position (axes_of w' (image_axes im w)) = ''bottom''
            \<and> xlabel_position (axes_of w' (image_axes im w)) = ''bottom''"
    using colorbar_active [of "''top''" im w width pad label kwargs] ax
    by (auto simp: positions_def opposite_side_def)
  show "\<exists>r w'. colorbar im width pad ''bottom'' label kwargs w = (Inr r, w')
            \<and> xticks_position (axes_of w' (image_axes im w)) = ''top''
            \<and> xlabel_position (axes_of w' (image_axes im w)) = ''top''"
    using colorbar_active [of "''bottom''" im w width pad label kwargs] ax
    by (auto simp: positions_def opposite_side_def)
qed

theorem colorbar_opposite_active_witness:
  "image_axes (WithAxes 0) demo_world < fresh demo_world
   \<and> fst (colorbar (WithAxes 0) (Rel ''7%'') (Rel ''0%'') ''left'' None [] demo_world) = Inr (PObj 3)
   \<and> yticks_position (axes_of (snd (colorbar (WithAxes 0) (Rel ''7%'') (Rel ''0%'') ''left'' None [] demo_world)) 0) = ''right''
   \<and> ylabel_position (axes_of (snd (colorbar (WithAxes 0) (Rel ''7%'') (Rel ''0%'') ''left'' None [] demo_world)) 0) = ''right''
   \<and> fst (colorbar (WithAxes 0) (Rel ''7%'') (Rel ''0%'') ''right'' None [] demo_world) = Inr (PObj 3)
   \<and> yticks_position (axes_of (snd (colorbar (WithAxes 0) (Rel ''7%'') (Rel ''0%'') ''right'' None [] demo_world)) 0) = ''left''
   \<and> ylabel_position (axes_of (snd (colorbar (WithAxes 0) (Rel ''7%'') (Rel ''0%'') ''right'' None [] demo_world)) 0) = ''left''
   \<and> fst (colorbar (WithAxes 0) (Rel ''7%'') (Rel ''0%'') ''top'' None [] demo_world) = Inr (PObj 3)
   \<and> xticks_position (axes_of (snd (colorbar (WithAxes 0) (Rel ''7%'') (Rel ''0%'') ''top'' None [] demo_world)) 0) = ''bottom''
   \<and> xlabel_position (axes_of (snd (colorbar (WithAxes 0) (Rel ''7%'') (Rel ''0%'') ''top'' None [] demo_world)) 0) = ''bottom''
   \<and> fst (colorbar (WithAxes 0) (Rel ''7%'') (Rel ''0%'') ''bottom'' None [] demo_world) = Inr (PObj 3)
   \<and> xticks_position (axes_of (snd (colorbar (WithAxes 0) (Rel ''7%'') (Rel ''0%'') ''bottom'' None [] demo_world)) 0) = ''top''
   \<and> xlabel_position (axes_of (snd (colorbar (WithAxes 0) (Rel ''7%'') (Rel ''0%'') ''bottom'' None [] demo_world)) 0) = ''top''"
  using colorbar_opposite_active [of "WithAxes 0" demo_world "Rel ''7%''" "Rel ''0%''" None "[]"]
  by (simp add: positions_def image_axes_def opposite_side_def demo_world_def colorbar_def Let_def
        split_def append_axes_def lib_new_def lib_do_def activate_axis_def tools_gca_def
        set_positions_def new_axes_def)

section \<open>What the functions return\<close>

lemma colorbar_returns:
  assumes r: "colorbar im width pad p label kwargs w = (Inr r, w')"
  shows "\<exists>cax orientation. (PltColorbar im cax orientation, r) \<in> set (made w w')"
proof (cases "p \<in> positions")
  case True
  obtain opp where o: "opposite_side p = Inr opp" using opposite_side_valid [OF True] by blast
  obtain w3 w5 where
    c3: "(PltColorbar im (fresh w) (if p \<in> {''top'', ''bottom''} then ''horizontal'' else ''vertical''),
               PObj (Suc (fresh w))) \<in> set (made w w3)"
    and w5: "w5 = set_positions (image_axes im w) opp (set_positions (fresh w) p w3)"
    and e: "colorbar im width pad p label kwargs w =
               (Inr (PObj (Suc (fresh w))),
                lib_do (SetVisible (fresh w5) False)
                  (snd (projr (append_axes (image_axes im w) p (invert_sign width) (invert_sign pad) w5))))"
    using colorbar_unfold [OF True o, of w im width pad label kwargs] by blast
  have "(PltColorbar im (fresh w) (if p \<in> {''top'', ''bottom''} then ''horizontal'' else ''vertical''), r)
          \<in> set (made w w')"
    using r c3 unfolding e
    by (auto simp: w5 set_positions_fields append_axes_valid(3) [OF True] lib_do_def made_def)
  then show ?thesis by blast
next
  case False
  have "fst (colorbar im width pad p label kwargs w) = Inl ValueError"
    unfolding colorbar_def Let_def
    by (simp add: append_axes_invalid [OF False])
  with r show ?thesis by simp
qed

lemma imshow_returns:
  assumes "imshow args ax kwargs w = (Inr r, w')"
  shows "\<exists>a args' kw. made w w' = [(AxImshow a args' kw, r)]"
  using assms by (auto simp: imshow_def parse_axes_def lib_new_def made_def)

lemma plot_returns:
  assumes "plot cfg args ax kwargs w = (Inr r, w')"
  shows "\<exists>a args'. (AxPlot a args' kwargs, r) \<in> set (made w w')"
  using assms
  by (auto simp: plot_def parse_axes_def lib_new_def lib_do_def Let_def made_def
        split: if_splits sum.splits)

lemma grid_returns:
  assumes "grid cfg args ax kwargs w = (Inr r, w')"
  shows "(style cfg = ''default''
           \<longrightarrow> (\<exists>a r1 r2. r = PTuple [r1, r2]
                  \<and> made w w' = [(AxGrid a ''major'' ''--'' kwargs, r1),
                                 (AxGrid a ''minor'' ''dotted'' kwargs, r2),
                                 (SetAxisBelow a True, PNone)]))
       \<and> (style cfg \<noteq> ''default'' \<and> style cfg \<noteq> ''none'' \<longrightarrow> r = PNone \<and> w' = w)"
  using assms
  by (auto simp: grid_def parse_axes_def lib_do_def Let_def made_def split: if_splits)

lemma activate_loop_returns:
  "activate_loop a ps w = (Inr r, w') \<Longrightarrow> r = PNone"
  by (induction ps arbitrary: w) (auto split: if_splits)

lemma activate_axis_returns:
  "activate_axis pos ax w = (Inr r, w') \<Longrightarrow> r = PNone"
  by (auto simp: activate_axis_def Let_def dest: activate_loop_returns)

text \<open>
  C7, as the code has it. A call that succeeds returns: for \<open>imshow\<close>, \<open>plot\<close>, \<open>legend\<close> and
  \<open>colorbar\<close> the object that the wrapped call made during it returned (\<^verbatim>\<open>ax.imshow\<close>,
  \<^verbatim>\<open>ax.plot\<close>, \<^verbatim>\<open>ax.legend\<close>, \<^verbatim>\<open>plt.colorbar\<close>); for \<open>grid\<close> under the style \<open>default\<close> the
  pair of what the two calls of \<^verbatim>\<open>ax.grid\<close> returned, and under a style that is neither
  \<open>default\<close> nor \<open>none\<close>, \<open>None\<close>, with no call made; for \<open>savefig\<close> and \<open>activate_axis\<close>
  \<open>None\<close>. What \<open>grid\<close> returns under the style \<open>none\<close> is left open here.
\<close>

theorem wrappers_return:
  "(imshow args ax kwargs w = (Inr r, w')
      \<longrightarrow> (\<exists>a args' kw. made w w' = [(AxImshow a args' kw, r)]))
   \<and> (plot cfg args ax kwargs w = (Inr r, w')
      \<longrightarrow> (\<exists>a args'. (AxPlot a args' kwargs, r) \<in> set (made w w')))
   \<and> (legend cfg args outside ax axs kwargs w = (Inr r, w')
      \<longrightarrow> (\<exists>a h l args' kw. (AxLegend a h l args' kw, r) \<in> set (made w w')))
   \<and> (colorbar im width pad position label kwargs w = (Inr r, w')
      \<longrightarrow> (\<exists>cax orientation. (PltColorbar im cax orientation, r) \<in> set (made w w')))
   \<and> (grid cfg args ax kwargs w = (Inr r, w')
      \<longrightarrow> (style cfg = ''default''
             \<longrightarrow> (\<exists>a r1 r2. r = PTuple [r1, r2]
                    \<and> made w w' = [(AxGrid a ''major'' ''--'' kwargs, r1),
                                   (AxGrid a ''minor'' ''dotted'' kwargs, r2),
                                   (SetAxisBelow a True, PNone)]))
          \<and> (style cfg \<noteq> ''default'' \<and> style cfg \<noteq> ''none'' \<longrightarrow> r = PNone \<and> w' = w))
   \<and> (savefig cfg fname use_canvas_size kwargs w = (Inr r, w') \<longrightarrow> r = PNone)
   \<and> (activate_axis pos ax w = (Inr r, w') \<longrightarrow> r = PNone)"
proof (intro conjI impI)
  assume "imshow args ax kwargs w = (Inr r, w')"
  then show "\<exists>a args' kw. made w w' = [(AxImshow a args' kw, r)]" by (rule imshow_returns)
next
  assume "plot cfg args ax kwargs w = (Inr r, w')"
  then show "\<exists>a args'. (AxPlot a args' kwargs, r) \<in> set (made w w')" by (rule plot_returns)
next
  assume "legend cfg args outside ax axs kwargs w = (Inr r, w')"
  then show "\<exists>a h l args' kw. (AxLegend a h l args' kw, r) \<in> set (made w w')"
    by (rule legend_returns_handle)
next
  assume "colorbar im width pad position label kwargs w = (Inr r, w')"
  then show "\<exists>cax orientation. (PltColorbar im cax orientation, r) \<in> set (made w w')"
    by (rule colorbar_returns)
next
  assume "grid cfg args ax kwargs w = (Inr r, w')" and "style cfg = ''default''"
  then show "\<exists>a r1 r2. r = PTuple [r1, r2]
                  \<and> made w w' = [(AxGrid a ''major'' ''--'' kwargs, r1),
                                 (AxGrid a ''minor'' ''dotted'' kwargs, r2),
                                 (SetAxisBelow a True, PNone)]"
    using grid_returns by blast
next
  assume "grid cfg args ax kwargs w = (Inr r, w')" and "style cfg \<noteq> ''default'' \<and> style cfg \<noteq> ''none''"
  then show "r = PNone" using grid_returns by blast
next
  assume "grid cfg args ax kwargs w = (Inr r, w')" and "style cfg \<noteq> ''default'' \<and> style cfg \<noteq> ''none''"
  then show "w' = w" using grid_returns by blast
next
  assume "savefig cfg fname use_canvas_size kwargs w = (Inr r, w')"
  then show "r = PNone" using savefig_trace by blast
next
  assume "activate_axis pos ax w = (Inr r, w')"
  then show "r = PNone" by (rule activate_axis_returns)
qed

theorem wrappers_return_witness:
  "imshow [PStr ''img''] None [] demo_world
     = (Inr (PObj 2), snd (imshow [PStr ''img''] None [] demo_world))
   \<and> made demo_world (snd (imshow [PStr ''img''] None [] demo_world))
     = [(AxImshow 0 [PStr ''img''] [(''zorder'', PInt 1)], PObj 2)]
   \<and> grid \<lparr>style = ''default'', mode = ''default''\<rparr> [] None [(''alpha'', PFloat (1 / 2))] demo_world
     = (Inr (PTuple [PNone, PNone]),
        snd (grid \<lparr>style = ''default'', mode = ''default''\<rparr> [] None [(''alpha'', PFloat (1 / 2))] demo_world))
   \<and> made demo_world (snd (grid \<lparr>style = ''default'', mode = ''default''\<rparr> [] None [(''alpha'', PFloat (1 / 2))] demo_world))
     = [(AxGrid 0 ''major'' ''--'' [(''alpha'', PFloat (1 / 2))], PNone),
        (AxGrid 0 ''minor'' ''dotted'' [(''alpha'', PFloat (1 / 2))], PNone),
        (SetAxisBelow 0 True, PNone)]
   \<and> style \<lparr>style = ''minimal'', mode = ''default''\<rparr> \<noteq> ''default''
   \<and> style \<lparr>style = ''minimal'', mode = ''default''\<rparr> \<noteq> ''none''
   \<and> grid \<lparr>style = ''minimal'', mode = ''default''\<rparr> [] None [(''alpha'', PFloat (1 / 2))] demo_world
     = (Inr PNone, demo_world)
   \<and> activate_axis (Pos ''top'') None demo_world
     = (Inr PNone, snd (activate_axis (Pos ''top'') None demo_world))"
  using
    wrappers_return [where args = "[PStr ''img'']" and ax = None and kwargs = "[]" and w = demo_world
      and r = "PObj 2" and w' = "snd (imshow [PStr ''img''] None [] demo_world)"]
    wrappers_return [where args = "[]" and ax = None and kwargs = "[(''alpha'', PFloat (1 / 2))]"
      and w = demo_world and cfg = "\<lparr>style = ''minimal'', mode = ''default''\<rparr>"
      and r = PNone and w' = demo_world]
    wrappers_return [where args = "[]" and ax = None and kwargs = "[(''alpha'', PFloat (1 / 2))]"
      and w = demo_world and cfg = "\<lparr>style = ''default'', mode = ''default''\<rparr>"
      and r = "PTuple [PNone, PNone]"
      and w' = "snd (grid \<lparr>style = ''default'', mode = ''default''\<rparr> [] None [(''alpha'', PFloat (1 / 2))] demo_world)"]
    wrappers_return [where ax = None and w = demo_world and pos = "Pos ''top''"
      and r = PNone and w' = "snd (activate_axis (Pos ''top'') None demo_world)"]
  by (simp add: imshow_def grid_def activate_axis_def parse_axes_def tools_gca_def lib_new_def lib_do_def
        has_key_def made_def positions_def demo_world_def)

text \<open>
  The claim as stated fails for \<open>grid\<close>. Under the style \<open>default\<close> it returns a pair, which
  is not what any of the calls it made on the library returned; under the style \<open>minimal\<close>
  it returns \<open>None\<close> and has made no call.
\<close>

theorem grid_returns_pair_or_nothing:
  "fst (grid \<lparr>style = ''default'', mode = ''default''\<rparr> [] None [] demo_world) = Inr (PTuple [PNone, PNone])
   \<and> calls (snd (grid \<lparr>style = ''default'', mode = ''default''\<rparr> [] None [] demo_world))
      = [(AxGrid 0 ''major'' ''--'' [], PNone), (AxGrid 0 ''minor'' ''dotted'' [], PNone),
         (SetAxisBelow 0 True, PNone)]
   \<and> PTuple [PNone, PNone]
      \<notin> snd ` set (calls (snd (grid \<lparr>style = ''default'', mode = ''default''\<rparr> [] None [] demo_world)))
   \<and> grid \<lparr>style = ''minimal'', mode = ''default''\<rparr> [] None [] demo_world = (Inr PNone, demo_world)"
  by (simp add: grid_def parse_axes_def tools_gca_def lib_do_def has_key_def demo_world_def)

end
